theory Spec2Isabelle
  imports Complex_Main "HOL-Library.AList"
begin

section \<open>The BMG type lattice (compiler/bmg\_types.py)\<close>

subsection \<open>Element markers and lattice type objects\<close>

text \<open>
  \<^verbatim>\<open>BMGElementType\<close> and \<^verbatim>\<open>BMGLatticeType\<close> both carry a short and a long name.
  The six element markers are module-level objects; they differ in their names, so a
  record of the two names identifies the object.
\<close>

record BMGElementType =
  short_name :: string
  long_name :: string

definition bool_element :: BMGElementType where
  "bool_element = \<lparr>short_name = ''B'', long_name = ''bool''\<rparr>"

definition natural_element :: BMGElementType where
  "natural_element = \<lparr>short_name = ''N'', long_name = ''natural''\<rparr>"

definition probability_element :: BMGElementType where
  "probability_element = \<lparr>short_name = ''P'', long_name = ''probability''\<rparr>"

definition positive_real_element :: BMGElementType where
  "positive_real_element = \<lparr>short_name = ''R+'', long_name = ''positive real''\<rparr>"

definition negative_real_element :: BMGElementType where
  "negative_real_element = \<lparr>short_name = ''R-'', long_name = ''negative real''\<rparr>"

definition real_element :: BMGElementType where
  "real_element = \<lparr>short_name = ''R'', long_name = ''real''\<rparr>"

text \<open>Python's \<^verbatim>\<open>str\<close> of an unbounded integer, as the f-strings of the names use it.\<close>

fun str_nat :: "nat \<Rightarrow> string" where
  "str_nat n = (if n < 10 then [''0123456789'' ! n]
                else str_nat (n div 10) @ [''0123456789'' ! (n mod 10)])"

declare str_nat.simps [simp del]

definition str_int :: "int \<Rightarrow> string" where
  "str_int i = (if i < 0 then CHR ''-'' # str_nat (nat (- i)) else str_nat (nat i))"

text \<open>
  The fields that \<^verbatim>\<open>BMGMatrixType.__init__\<close> stores on a matrix type object:
  the two names of \<^verbatim>\<open>BMGLatticeType\<close>, the element marker and the dimensions.
\<close>

record BMGMatrixType =
  mt_short_name :: string
  mt_long_name :: string
  element_type :: BMGElementType
  rows :: int
  columns :: int

definition BMGMatrixType_init ::
  "BMGElementType \<Rightarrow> string \<Rightarrow> string \<Rightarrow> int \<Rightarrow> int \<Rightarrow> BMGMatrixType" where
  "BMGMatrixType_init element_type' short_name' long_name' rows' columns' =
     \<lparr>mt_short_name = short_name', mt_long_name = long_name',
      element_type = element_type', rows = rows', columns = columns'\<rparr>"

text \<open>
  \<^verbatim>\<open>BroadcastMatrixType.__init__\<close> builds the names from its \<^verbatim>\<open>element_type\<close>
  argument and then calls the base initialiser with \<^verbatim>\<open>bool_element\<close> (line 135).
\<close>

definition BroadcastMatrixType_init :: "BMGElementType \<Rightarrow> int \<Rightarrow> int \<Rightarrow> BMGMatrixType" where
  "BroadcastMatrixType_init element_type' rows' columns' =
     (let short_name' =
            (if rows' = 1 \<and> columns' = 1 then short_name element_type'
             else ''M'' @ short_name element_type' @ ''['' @ str_int rows' @ '','' @
                  str_int columns' @ '']'');
          long_name' =
            (if rows' = 1 \<and> columns' = 1 then long_name element_type'
             else str_int rows' @ '' x '' @ str_int columns' @ '' '' @
                  long_name element_type' @ '' matrix'')
      in BMGMatrixType_init bool_element short_name' long_name' rows' columns')"

text \<open>The nine memoized matrix classes.\<close>

datatype matrix_class =
    BooleanMatrix | NaturalMatrix | ProbabilityMatrix | PositiveRealMatrix
  | NegativeRealMatrix | RealMatrix | SimplexMatrix | OneHotMatrix | ZeroMatrix

text \<open>The \<^verbatim>\<open>__init__\<close> of each class, by class.\<close>

fun matrix_init :: "matrix_class \<Rightarrow> int \<Rightarrow> int \<Rightarrow> BMGMatrixType" where
  "matrix_init BooleanMatrix r c = BroadcastMatrixType_init bool_element r c"
| "matrix_init NaturalMatrix r c = BroadcastMatrixType_init natural_element r c"
| "matrix_init ProbabilityMatrix r c = BroadcastMatrixType_init probability_element r c"
| "matrix_init PositiveRealMatrix r c = BroadcastMatrixType_init positive_real_element r c"
| "matrix_init NegativeRealMatrix r c = BroadcastMatrixType_init negative_real_element r c"
| "matrix_init RealMatrix r c = BroadcastMatrixType_init real_element r c"
| "matrix_init SimplexMatrix r c =
     BMGMatrixType_init probability_element
       (''S['' @ str_int r @ '','' @ str_int c @ '']'')
       (str_int r @ '' x '' @ str_int c @ '' simplex matrix'') r c"
| "matrix_init OneHotMatrix r c =
     BMGMatrixType_init bool_element
       (if r = 1 \<and> c = 1 then ''OH'' else ''OH['' @ str_int r @ '','' @ str_int c @ '']'')
       (if r = 1 \<and> c = 1 then ''one-hot''
        else str_int r @ '' x '' @ str_int c @ '' one-hot matrix'') r c"
| "matrix_init ZeroMatrix r c =
     BMGMatrixType_init bool_element
       (if r = 1 \<and> c = 1 then ''Z'' else ''Z['' @ str_int r @ '','' @ str_int c @ '']'')
       (if r = 1 \<and> c = 1 then ''zero''
        else str_int r @ '' x '' @ str_int c @ '' zero matrix'') r c"

text \<open>
  A lattice type object. The matrix constructors are memoized on their arguments
  (\<^verbatim>\<open>@memoize\<close>, "any two MR[2,2]s are reference equal"), and \<^verbatim>\<open>bottom\<close>,
  \<^verbatim>\<open>Tensor\<close> and \<^verbatim>\<open>Malformed\<close> are single module-level objects, so Python's
  \<^verbatim>\<open>==\<close> on lattice types (object identity, no \<^verbatim>\<open>__eq__\<close> is defined) is
  equality of class and dimensions: HOL equality on this datatype.
\<close>

datatype BMGLatticeType =
    bottom
  | Tensor
  | Malformed
  | Matrix matrix_class int int

abbreviation top :: BMGLatticeType where "top \<equiv> Malformed"

definition One :: BMGLatticeType where "One = Matrix OneHotMatrix 1 1"
definition Zero :: BMGLatticeType where "Zero = Matrix ZeroMatrix 1 1"
definition Boolean :: BMGLatticeType where "Boolean = Matrix BooleanMatrix 1 1"
definition Natural :: BMGLatticeType where "Natural = Matrix NaturalMatrix 1 1"
definition Probability :: BMGLatticeType where "Probability = Matrix ProbabilityMatrix 1 1"
definition PositiveReal :: BMGLatticeType where "PositiveReal = Matrix PositiveRealMatrix 1 1"
definition NegativeReal :: BMGLatticeType where "NegativeReal = Matrix NegativeRealMatrix 1 1"
definition Real :: BMGLatticeType where "Real = Matrix RealMatrix 1 1"

text \<open>The fields of a matrix type object (\<^verbatim>\<open>None\<close> for the three marker objects).\<close>

fun matrix_fields :: "BMGLatticeType \<Rightarrow> BMGMatrixType option" where
  "matrix_fields (Matrix k r c) = Some (matrix_init k r c)"
| "matrix_fields _ = None"

subsection \<open>Supremum\<close>

text \<open>
  \<^verbatim>\<open>_lookup()\<close>: the dictionary from a pair of classes to the class whose constructor
  is applied to the common dimensions. All 81 entries are transcribed in source order
  (R, RP, RN, P, S, N, B, OH, Z).
\<close>

fun u_lookup :: "matrix_class \<Rightarrow> matrix_class \<Rightarrow> matrix_class" where
  "u_lookup RealMatrix RealMatrix = RealMatrix"
| "u_lookup RealMatrix PositiveRealMatrix = RealMatrix"
| "u_lookup RealMatrix NegativeRealMatrix = RealMatrix"
| "u_lookup RealMatrix ProbabilityMatrix = RealMatrix"
| "u_lookup RealMatrix SimplexMatrix = RealMatrix"
| "u_lookup RealMatrix NaturalMatrix = RealMatrix"
| "u_lookup RealMatrix BooleanMatrix = RealMatrix"
| "u_lookup RealMatrix OneHotMatrix = RealMatrix"
| "u_lookup RealMatrix ZeroMatrix = RealMatrix"
| "u_lookup PositiveRealMatrix RealMatrix = RealMatrix"
| "u_lookup PositiveRealMatrix PositiveRealMatrix = PositiveRealMatrix"
| "u_lookup PositiveRealMatrix NegativeRealMatrix = RealMatrix"
| "u_lookup PositiveRealMatrix ProbabilityMatrix = PositiveRealMatrix"
| "u_lookup PositiveRealMatrix SimplexMatrix = PositiveRealMatrix"
| "u_lookup PositiveRealMatrix NaturalMatrix = PositiveRealMatrix"
| "u_lookup PositiveRealMatrix BooleanMatrix = PositiveRealMatrix"
| "u_lookup PositiveRealMatrix OneHotMatrix = PositiveRealMatrix"
| "u_lookup PositiveRealMatrix ZeroMatrix = PositiveRealMatrix"
| "u_lookup NegativeRealMatrix RealMatrix = RealMatrix"
| "u_lookup NegativeRealMatrix PositiveRealMatrix = RealMatrix"
| "u_lookup NegativeRealMatrix NegativeRealMatrix = NegativeRealMatrix"
| "u_lookup NegativeRealMatrix ProbabilityMatrix = RealMatrix"
| "u_lookup NegativeRealMatrix SimplexMatrix = RealMatrix"
| "u_lookup NegativeRealMatrix NaturalMatrix = RealMatrix"
| "u_lookup NegativeRealMatrix BooleanMatrix = RealMatrix"
| "u_lookup NegativeRealMatrix OneHotMatrix = RealMatrix"
| "u_lookup NegativeRealMatrix ZeroMatrix = NegativeRealMatrix"
| "u_lookup ProbabilityMatrix RealMatrix = RealMatrix"
| "u_lookup ProbabilityMatrix PositiveRealMatrix = PositiveRealMatrix"
| "u_lookup ProbabilityMatrix NegativeRealMatrix = RealMatrix"
| "u_lookup ProbabilityMatrix ProbabilityMatrix = ProbabilityMatrix"
| "u_lookup ProbabilityMatrix SimplexMatrix = ProbabilityMatrix"
| "u_lookup ProbabilityMatrix NaturalMatrix = PositiveRealMatrix"
| "u_lookup ProbabilityMatrix BooleanMatrix = ProbabilityMatrix"
| "u_lookup ProbabilityMatrix OneHotMatrix = ProbabilityMatrix"
| "u_lookup ProbabilityMatrix ZeroMatrix = ProbabilityMatrix"
| "u_lookup SimplexMatrix RealMatrix = RealMatrix"
| "u_lookup SimplexMatrix PositiveRealMatrix = PositiveRealMatrix"
| "u_lookup SimplexMatrix NegativeRealMatrix = RealMatrix"
| "u_lookup SimplexMatrix ProbabilityMatrix = ProbabilityMatrix"
| "u_lookup SimplexMatrix SimplexMatrix = SimplexMatrix"
| "u_lookup SimplexMatrix NaturalMatrix = PositiveRealMatrix"
| "u_lookup SimplexMatrix BooleanMatrix = PositiveRealMatrix"
| "u_lookup SimplexMatrix OneHotMatrix = SimplexMatrix"
| "u_lookup SimplexMatrix ZeroMatrix = RealMatrix"
| "u_lookup NaturalMatrix RealMatrix = RealMatrix"
| "u_lookup NaturalMatrix PositiveRealMatrix = PositiveRealMatrix"
| "u_lookup NaturalMatrix NegativeRealMatrix = RealMatrix"
| "u_lookup NaturalMatrix ProbabilityMatrix = PositiveRealMatrix"
| "u_lookup NaturalMatrix SimplexMatrix = PositiveRealMatrix"
| "u_lookup NaturalMatrix NaturalMatrix = NaturalMatrix"
| "u_lookup NaturalMatrix BooleanMatrix = NaturalMatrix"
| "u_lookup NaturalMatrix OneHotMatrix = NaturalMatrix"
| "u_lookup NaturalMatrix ZeroMatrix = NaturalMatrix"
| "u_lookup BooleanMatrix RealMatrix = RealMatrix"
| "u_lookup BooleanMatrix PositiveRealMatrix = PositiveRealMatrix"
| "u_lookup BooleanMatrix NegativeRealMatrix = RealMatrix"
| "u_lookup BooleanMatrix ProbabilityMatrix = ProbabilityMatrix"
| "u_lookup BooleanMatrix SimplexMatrix = ProbabilityMatrix"
| "u_lookup BooleanMatrix NaturalMatrix = NaturalMatrix"
| "u_lookup BooleanMatrix BooleanMatrix = BooleanMatrix"
| "u_lookup BooleanMatrix OneHotMatrix = BooleanMatrix"
| "u_lookup BooleanMatrix ZeroMatrix = BooleanMatrix"
| "u_lookup OneHotMatrix RealMatrix = RealMatrix"
| "u_lookup OneHotMatrix PositiveRealMatrix = PositiveRealMatrix"
| "u_lookup OneHotMatrix NegativeRealMatrix = RealMatrix"
| "u_lookup OneHotMatrix ProbabilityMatrix = ProbabilityMatrix"
| "u_lookup OneHotMatrix SimplexMatrix = SimplexMatrix"
| "u_lookup OneHotMatrix NaturalMatrix = NaturalMatrix"
| "u_lookup OneHotMatrix BooleanMatrix = BooleanMatrix"
| "u_lookup OneHotMatrix OneHotMatrix = OneHotMatrix"
| "u_lookup OneHotMatrix ZeroMatrix = BooleanMatrix"
| "u_lookup ZeroMatrix RealMatrix = RealMatrix"
| "u_lookup ZeroMatrix PositiveRealMatrix = PositiveRealMatrix"
| "u_lookup ZeroMatrix NegativeRealMatrix = NegativeRealMatrix"
| "u_lookup ZeroMatrix ProbabilityMatrix = ProbabilityMatrix"
| "u_lookup ZeroMatrix SimplexMatrix = SimplexMatrix"
| "u_lookup ZeroMatrix NaturalMatrix = NaturalMatrix"
| "u_lookup ZeroMatrix BooleanMatrix = BooleanMatrix"
| "u_lookup ZeroMatrix OneHotMatrix = BooleanMatrix"
| "u_lookup ZeroMatrix ZeroMatrix = ZeroMatrix"

text \<open>
  \<^verbatim>\<open>_supremum(t, u)\<close>, in the order of the source. When the fifth test has
  failed both arguments are matrix types (the only other lattice objects are
  \<^verbatim>\<open>bottom\<close>, \<^verbatim>\<open>Tensor\<close> and \<^verbatim>\<open>Malformed\<close>), so the two
  \<^verbatim>\<open>isinstance\<close> assertions that follow cannot fail (lemma
  \<open>u_supremum_asserts\<close> below); the default branch of the final \<open>case\<close> is
  therefore never taken.
\<close>

definition isinstance_BMGMatrixType :: "BMGLatticeType \<Rightarrow> bool" where
  "isinstance_BMGMatrixType t = (case t of Matrix k r c \<Rightarrow> True | _ \<Rightarrow> False)"

definition u_supremum :: "BMGLatticeType \<Rightarrow> BMGLatticeType \<Rightarrow> BMGLatticeType" where
  "u_supremum t u =
     (if t = u then t
      else if t = bottom then u
      else if u = bottom then t
      else if t = top \<or> u = top then top
      else if t = Tensor \<or> u = Tensor then Tensor
      else case (t, u) of
             (Matrix k r c, Matrix k' r' c') \<Rightarrow>
               if r \<noteq> r' \<or> c \<noteq> c' then Tensor
               else Matrix (u_lookup k k') r c
           | _ \<Rightarrow> Malformed)"

text \<open>\<^verbatim>\<open>supremum(*ts)\<close>: the fold of \<^verbatim>\<open>_supremum\<close> from \<^verbatim>\<open>bottom\<close>.\<close>

definition supremum :: "BMGLatticeType list \<Rightarrow> BMGLatticeType" where
  "supremum ts = fold (\<lambda>t result. u_supremum result t) ts bottom"

subsection \<open>Requirements\<close>

text \<open>
  \<^verbatim>\<open>Requirement = Union[BMGLatticeType, UpperBound]\<close>: an exact bound is the bare type
  object, an upper bound wraps it. \<^verbatim>\<open>upper_bound\<close> is memoized, so two upper bounds on
  the same type are the same object.
\<close>

datatype Requirement = Exact BMGLatticeType | UpperBound (bound: BMGLatticeType)

fun upper_bound :: "Requirement \<Rightarrow> Requirement" where
  "upper_bound (UpperBound b) = UpperBound b"
| "upper_bound (Exact b) = UpperBound b"

definition meets_requirement :: "BMGLatticeType \<Rightarrow> Requirement \<Rightarrow> bool" where
  "meets_requirement t r =
     (if t = Malformed then False
      else case r of
             UpperBound b \<Rightarrow> u_supremum t b = b
           | Exact u \<Rightarrow> t = u)"

subsection \<open>Classifying literal values\<close>

text \<open>
  A Python \<^verbatim>\<open>float\<close> is an IEEE double: a finite value, which is a rational number
  (the two zeros are equal in every comparison), one of the two infinities, or a nan.
  The comparisons of the source are those of the doubles: exact on the finite values,
  and false whenever an operand is a nan.
\<close>

datatype pyfloat = Finite rat | PosInf | NegInf | NaN

fun float_le :: "pyfloat \<Rightarrow> pyfloat \<Rightarrow> bool" where
  "float_le NaN y = False"
| "float_le x NaN = False"
| "float_le NegInf y = True"
| "float_le x PosInf = True"
| "float_le (Finite a) (Finite b) = (a \<le> b)"
| "float_le (Finite a) NegInf = False"
| "float_le PosInf y = False"

fun float_lt :: "pyfloat \<Rightarrow> pyfloat \<Rightarrow> bool" where
  "float_lt NaN y = False"
| "float_lt x NaN = False"
| "float_lt (Finite a) (Finite b) = (a < b)"
| "float_lt (Finite a) PosInf = True"
| "float_lt (Finite a) NegInf = False"
| "float_lt NegInf NegInf = False"
| "float_lt NegInf y = True"
| "float_lt PosInf y = False"

text \<open>\<^verbatim>\<open>v == i\<close> for a float \<open>v\<close> and an unbounded integer \<open>i\<close>: exact.\<close>

fun float_eq_int :: "pyfloat \<Rightarrow> int \<Rightarrow> bool" where
  "float_eq_int (Finite a) i = (a = of_int i)"
| "float_eq_int x i = False"

text \<open>
  The values \<^verbatim>\<open>type_of_value\<close> dispatches on. A Python \<^verbatim>\<open>int\<close> is unbounded.
  \<^verbatim>\<open>torch.Tensor\<close> values, which go to \<^verbatim>\<open>_type_of_matrix\<close>, are not represented.
  \<open>PyOther\<close> stands for a value of any other Python type.
\<close>

datatype pyvalue = PyBool bool | PyInt int | PyFloat pyfloat | PyOther

datatype error = ValueError string | OverflowError string | AssertionError | IndexError

text \<open>
  \<^verbatim>\<open>int(v)\<close> on a float truncates towards zero; it raises \<^verbatim>\<open>OverflowError\<close> on an
  infinity and \<^verbatim>\<open>ValueError\<close> on a nan.
\<close>

fun int_of_float :: "pyfloat \<Rightarrow> error + int" where
  "int_of_float (Finite v) = Inr (if 0 \<le> v then \<lfloor>v\<rfloor> else \<lceil>v\<rceil>)"
| "int_of_float PosInf = Inl (OverflowError ''cannot convert float infinity to integer'')"
| "int_of_float NegInf = Inl (OverflowError ''cannot convert float infinity to integer'')"
| "int_of_float NaN = Inl (ValueError ''cannot convert float NaN to integer'')"

text \<open>
  \<^verbatim>\<open>type_of_value\<close>. \<^verbatim>\<open>bool\<close> is tested before \<^verbatim>\<open>int\<close>, as in the source
  (a Python \<^verbatim>\<open>bool\<close> is an \<^verbatim>\<open>int\<close>). The float branch evaluates \<^verbatim>\<open>int(v)\<close>
  first, which may raise, and calls the function again on \<^verbatim>\<open>int(v)\<close>; that call
  takes the \<^verbatim>\<open>int\<close> branch, which is \<open>type_of_int\<close>.
\<close>

definition type_of_int :: "int \<Rightarrow> BMGLatticeType" where
  "type_of_int v =
     (if v = 0 then Zero
      else if v = 1 then One
      else if v \<ge> 2 then Natural
      else NegativeReal)"

fun type_of_value :: "pyvalue \<Rightarrow> error + BMGLatticeType" where
  "type_of_value (PyBool v) = Inr (if v then One else Zero)"
| "type_of_value (PyInt v) = Inr (type_of_int v)"
| "type_of_value (PyFloat v) =
     (case int_of_float v of
        Inl e \<Rightarrow> Inl e
      | Inr i \<Rightarrow>
          if float_eq_int v i then Inr (type_of_int i)
          else if float_le (Finite 0) v then
            (if float_le v (Finite 1) then Inr Probability else Inr PositiveReal)
          else Inr NegativeReal)"
| "type_of_value PyOther = Inl (ValueError ''Unexpected value passed to type_of_value'')"

section \<open>The graph builder (utils/bm\_graph\_builder.py)\<close>

text \<open>
  The node classes of the builder. A constant class carries its value (a float by the
  rational it denotes, a tensor by its elements); the other classes carry nothing but
  their children.
\<close>

datatype node_class =
    BooleanNode bool
  | RealNode rat
  | TensorNode "rat list"
  | BernoulliNode
  | AdditionNode
  | MultiplicationNode
  | NegateNode
  | ToRealNode
  | ExpNode
  | SampleNode
  | Observation
  | Query

text \<open>
  A node object. No class of the module defines \<^verbatim>\<open>__eq__\<close> or \<^verbatim>\<open>__hash__\<close>, so
  two nodes are equal, and are the same dictionary key, only when they are the same
  object. \<open>ident\<close> is the object's identity: two objects built by two constructor calls
  differ in it whatever their class, value and children. \<^verbatim>\<open>children\<close> is set by the
  constructor from nodes that exist already and is never assigned again in the module.
\<close>

datatype BMGNode = BMGNode (ident: nat) (node_class: node_class) (children: "BMGNode list")

text \<open>
  \<^verbatim>\<open>BMGraphBuilder.nodes: Dict[BMGNode, int]\<close>, an insertion-ordered dictionary:
  an association list in insertion order. \<open>AList.update\<close> is Python's item assignment
  (a key that is present keeps its place and gets the new value, a new key goes to the
  end), \<open>map_of\<close> the lookup.
\<close>

record BMGraphBuilder =
  nodes :: "(BMGNode \<times> nat) list"

definition BMGraphBuilder_init :: BMGraphBuilder where
  "BMGraphBuilder_init = \<lparr>nodes = []\<rparr>"

text \<open>\<^verbatim>\<open>add_node\<close>; the loop over the children is the \<open>fold\<close>.\<close>

fun add_node :: "BMGNode \<Rightarrow> BMGraphBuilder \<Rightarrow> BMGraphBuilder" where
  "add_node (BMGNode i k cs) self =
     (if BMGNode i k cs \<notin> set (map fst (nodes self)) then
        (let self' = fold add_node cs self
         in self'\<lparr>nodes := AList.update (BMGNode i k cs) (length (nodes self')) (nodes self')\<rparr>)
      else self)"

text \<open>
  The factory methods. Each one constructs a new node object and adds it. The state
  they run in is the number of node objects constructed so far, which gives the new
  object its identity, and the builder.
\<close>

type_synonym world = "nat \<times> BMGraphBuilder"

definition construct :: "node_class \<Rightarrow> BMGNode list \<Rightarrow> world \<Rightarrow> BMGNode \<times> world" where
  "construct k cs w = (BMGNode (fst w) k cs, (Suc (fst w), snd w))"

definition add_constructed :: "node_class \<Rightarrow> BMGNode list \<Rightarrow> world \<Rightarrow> BMGNode \<times> world" where
  "add_constructed k cs w =
     (let (node, w') = construct k cs w
      in (node, (fst w', add_node node (snd w'))))"

definition add_real :: "rat \<Rightarrow> world \<Rightarrow> BMGNode \<times> world" where
  "add_real v = add_constructed (RealNode v) []"

definition add_boolean :: "bool \<Rightarrow> world \<Rightarrow> BMGNode \<times> world" where
  "add_boolean v = add_constructed (BooleanNode v) []"

definition add_tensor :: "rat list \<Rightarrow> world \<Rightarrow> BMGNode \<times> world" where
  "add_tensor v = add_constructed (TensorNode v) []"

definition add_bernoulli :: "BMGNode \<Rightarrow> world \<Rightarrow> BMGNode \<times> world" where
  "add_bernoulli probability = add_constructed BernoulliNode [probability]"

definition add_addition :: "BMGNode \<Rightarrow> BMGNode \<Rightarrow> world \<Rightarrow> BMGNode \<times> world" where
  "add_addition left right = add_constructed AdditionNode [left, right]"

definition add_multiplication :: "BMGNode \<Rightarrow> BMGNode \<Rightarrow> world \<Rightarrow> BMGNode \<times> world" where
  "add_multiplication left right = add_constructed MultiplicationNode [left, right]"

definition add_negate :: "BMGNode \<Rightarrow> world \<Rightarrow> BMGNode \<times> world" where
  "add_negate operand = add_constructed NegateNode [operand]"

definition add_to_real :: "BMGNode \<Rightarrow> world \<Rightarrow> BMGNode \<times> world" where
  "add_to_real operand = add_constructed ToRealNode [operand]"

definition add_exp :: "BMGNode \<Rightarrow> world \<Rightarrow> BMGNode \<times> world" where
  "add_exp operand = add_constructed ExpNode [operand]"

definition add_sample :: "BMGNode \<Rightarrow> world \<Rightarrow> BMGNode \<times> world" where
  "add_sample operand = add_constructed SampleNode [operand]"

definition add_observation :: "BMGNode \<Rightarrow> BMGNode \<Rightarrow> world \<Rightarrow> BMGNode \<times> world" where
  "add_observation observed v = add_constructed Observation [observed, v]"

definition add_query :: "BMGNode \<Rightarrow> world \<Rightarrow> BMGNode \<times> world" where
  "add_query operator = add_constructed Query [operator]"

text \<open>The keys of the dictionary, and what the proofs below maintain.\<close>

definition keys :: "BMGraphBuilder \<Rightarrow> BMGNode set" where
  "keys self = set (map fst (nodes self))"

text \<open>
  What holds of a builder and is stated of it below: every child of a node of the map
  is in the map with a smaller index; and the identities in the map are older than
  the next object.
\<close>

definition children_precede :: "BMGraphBuilder \<Rightarrow> bool" where
  "children_precede self =
     (\<forall>(n, i) \<in> set (nodes self). \<forall>c \<in> set (children n).
        \<exists>j. map_of (nodes self) c = Some j \<and> j < i)"

definition idents_below :: "world \<Rightarrow> bool" where
  "idents_below w = (\<forall>(n, i) \<in> set (nodes (snd w)). ident n < fst w)"

text \<open>
  The invariant of the builder: no key twice, every index below the size of the
  dictionary, children before parents. \<open>extends\<close>: the dictionary only grows at its
  end.
\<close>

definition builder_inv :: "BMGraphBuilder \<Rightarrow> bool" where
  "builder_inv self =
     (distinct (map fst (nodes self))
      \<and> (\<forall>(n, i) \<in> set (nodes self). i < length (nodes self))
      \<and> children_precede self)"

definition extends :: "BMGraphBuilder \<Rightarrow> BMGraphBuilder \<Rightarrow> bool" where
  "extends b b' = (\<exists>xs. nodes b' = nodes b @ xs)"

section \<open>The requirements fixer (compiler/fix\_requirements.py)\<close>

subsection \<open>What the fixer imports\<close>

text \<open>
  \<^verbatim>\<open>fix_requirements.py\<close> is in the repository's files; the modules it imports
  (\<^verbatim>\<open>compiler/bmg_nodes.py\<close>, \<^verbatim>\<open>compiler/bm_graph_builder.py\<close>,
  \<^verbatim>\<open>compiler/error_report.py\<close>, \<^verbatim>\<open>compiler/graph_labels.py\<close>) and four helpers of
  \<^verbatim>\<open>bmg_types\<close> that it calls are not. What the fixer needs of them is modelled
  here from the specification, or taken as a parameter where the specification does
  not fix it.

  A node object is referred to by a handle, its position in the builder's arena
  (specification, 3.3 and 9: "referenced by handle (an integer index into the builder's
  node vector)"). The fixer tests the class of a node with \<^verbatim>\<open>isinstance\<close>; the classes
  it tests for are listed, \<open>bn_OperatorNode\<close> standing for any other operator class and
  \<open>bn_OtherNode\<close> for any other node class.
\<close>

type_synonym handle = nat

datatype bn_class =
    bn_Observation
  | bn_Query
  | bn_ConstantNode
  | bn_DistributionNode
  | bn_MapNode
  | bn_SampleNode
  | bn_IndexNodeDeprecated
  | bn_MultiplicationNode
  | bn_PowerNode
  | bn_IfThenElseNode
  | bn_ToRealNode
  | bn_ToPositiveRealNode
  | bn_ToProbabilityNode
  | bn_OperatorNode
  | bn_OtherNode

text \<open>
  Modelled from the spec: the node classes of \<^verbatim>\<open>bmg_nodes.py\<close> (3.3: operators are
  the arithmetic, coercion and control nodes and \<^verbatim>\<open>Sample\<close>).
\<close>

definition isinstance_OperatorNode :: "bn_class \<Rightarrow> bool" where
  "isinstance_OperatorNode k =
     (k \<in> {bn_SampleNode, bn_IndexNodeDeprecated, bn_MultiplicationNode, bn_PowerNode,
            bn_IfThenElseNode, bn_ToRealNode, bn_ToPositiveRealNode, bn_ToProbabilityNode,
            bn_OperatorNode})"

text \<open>
  Modelled from the spec: a node of \<^verbatim>\<open>bmg_nodes.py\<close> (3.3): its class, its ordered
  inputs, and for a constant its value and, when a coercion made it, the type it was
  made for.
\<close>

record bn_node =
  node_class :: bn_class
  inputs :: "handle list"
  cvalue :: pyvalue
  ctype :: "BMGLatticeType option"

text \<open>
  What \<^verbatim>\<open>bmg_nodes.py\<close> and \<^verbatim>\<open>graph_labels.py\<close> compute for a node,
  \<^verbatim>\<open>bt.must_be_matrix\<close>, and the builder's \<^verbatim>\<open>_traverse_from_roots\<close> (the
  list of nodes that \<^verbatim>\<open>fix_problems\<close> visits, computed from the arena):
  parameters of the model. \<open>graph_type\<close> and \<open>inf_type\<close> are
  the values of the two properties when the fixer reads them; the fixer visits
  producers before consumers, so it reads the type of a node after the node's own
  inputs have been settled.
\<close>

record node_model =
  graph_type :: "handle \<Rightarrow> BMGLatticeType"
  inf_type :: "handle \<Rightarrow> BMGLatticeType"
  requirements :: "handle \<Rightarrow> Requirement list"
  get_edge_labels :: "handle \<Rightarrow> string list"
  must_be_matrix :: "Requirement \<Rightarrow> bool"
  traverse_from_roots :: "bn_node list \<Rightarrow> handle list"

text \<open>
  Modelled from the spec: the builder of \<^verbatim>\<open>compiler/bm_graph_builder.py\<close> (4.3, 9):
  an arena of nodes; a factory returns the handle of the node with the same structural
  key when there is one, and appends the node otherwise.
\<close>

record graph_builder =
  arena :: "bn_node list"

fun index_of :: "'a \<Rightarrow> 'a list \<Rightarrow> nat option" where
  "index_of x [] = None"
| "index_of x (y # ys) =
     (if x = y then Some 0 else map_option Suc (index_of x ys))"

definition intern :: "bn_node \<Rightarrow> graph_builder \<Rightarrow> handle \<times> graph_builder" where
  "intern n b =
     (case index_of n (arena b) of
        Some h \<Rightarrow> (h, b)
      | None \<Rightarrow> (length (arena b), b\<lparr>arena := arena b @ [n]\<rparr>))"

definition add_constant_of_type ::
  "pyvalue \<Rightarrow> BMGLatticeType \<Rightarrow> graph_builder \<Rightarrow> handle \<times> graph_builder" where
  "add_constant_of_type v t =
     intern \<lparr>node_class = bn_ConstantNode, inputs = [], cvalue = v, ctype = Some t\<rparr>"

definition add_constant_of_matrix_type ::
  "pyvalue \<Rightarrow> BMGLatticeType \<Rightarrow> graph_builder \<Rightarrow> handle \<times> graph_builder" where
  "add_constant_of_matrix_type v t =
     intern \<lparr>node_class = bn_ConstantNode, inputs = [], cvalue = v, ctype = Some t\<rparr>"

definition add_operator :: "bn_class \<Rightarrow> handle list \<Rightarrow> graph_builder \<Rightarrow> handle \<times> graph_builder" where
  "add_operator k ins =
     intern \<lparr>node_class = k, inputs = ins, cvalue = PyOther, ctype = None\<rparr>"

definition add_if_then_else ::
  "handle \<Rightarrow> handle \<Rightarrow> handle \<Rightarrow> graph_builder \<Rightarrow> handle \<times> graph_builder" where
  "add_if_then_else condition consequence alternative =
     add_operator bn_IfThenElseNode [condition, consequence, alternative]"

definition add_to_real_c :: "handle \<Rightarrow> graph_builder \<Rightarrow> handle \<times> graph_builder" where
  "add_to_real_c operand = add_operator bn_ToRealNode [operand]"

definition add_to_positive_real :: "handle \<Rightarrow> graph_builder \<Rightarrow> handle \<times> graph_builder" where
  "add_to_positive_real operand = add_operator bn_ToPositiveRealNode [operand]"

definition add_to_probability :: "handle \<Rightarrow> graph_builder \<Rightarrow> handle \<times> graph_builder" where
  "add_to_probability operand = add_operator bn_ToProbabilityNode [operand]"

text \<open>
  Modelled from the spec: \<^verbatim>\<open>Violation\<close> and \<^verbatim>\<open>ErrorReport\<close> of
  \<^verbatim>\<open>error_report.py\<close> (4.5): a list of records, only ever appended to.
\<close>

datatype Violation = Violation handle Requirement handle string

text \<open>
  Modelled from the spec: the helpers of \<^verbatim>\<open>bmg_types\<close> that the fixer calls and the
  file does not define (3.2, 4.4). \<^verbatim>\<open>type_meets_requirement\<close> is the
  \<^verbatim>\<open>meets_requirement\<close> of the file; a node meets a requirement when its graph type
  does.
\<close>

definition type_meets_requirement :: "BMGLatticeType \<Rightarrow> Requirement \<Rightarrow> bool" where
  "type_meets_requirement t r = meets_requirement t r"

definition node_meets_requirement :: "node_model \<Rightarrow> handle \<Rightarrow> Requirement \<Rightarrow> bool" where
  "node_meets_requirement M node r = type_meets_requirement (graph_type M node) r"

fun requirement_to_type :: "Requirement \<Rightarrow> BMGLatticeType" where
  "requirement_to_type (UpperBound b) = b"
| "requirement_to_type (Exact t) = t"

text \<open>
  The name \<^verbatim>\<open>Tensor\<close> in \<^verbatim>\<open>fix_requirements.py\<close> is bound by
  \<^verbatim>\<open>from torch import Tensor\<close> (line 16): it is the class \<^verbatim>\<open>torch.Tensor\<close>, not the
  lattice type \<^verbatim>\<open>bt.Tensor\<close>. The two kinds of object that the comparison on line 241
  can see, compared by identity (neither defines \<^verbatim>\<open>__eq__\<close> for the other).
\<close>

datatype pyobject = lattice_type BMGLatticeType | torch_Tensor

subsection \<open>The fixer\<close>

record RequirementsFixer =
  errors :: "Violation list"
  bmg :: graph_builder

definition RequirementsFixer_init :: "graph_builder \<Rightarrow> RequirementsFixer" where
  "RequirementsFixer_init b = \<lparr>errors = [], bmg = b\<rparr>"

text \<open>The attributes of a node object that the fixer reads through the builder's arena.\<close>

definition node_of :: "RequirementsFixer \<Rightarrow> handle \<Rightarrow> bn_node" where
  "node_of self h = arena (bmg self) ! h"

definition class_of :: "RequirementsFixer \<Rightarrow> handle \<Rightarrow> bn_class" where
  "class_of self h = node_class (node_of self h)"

type_synonym 'a result = "error + ('a \<times> RequirementsFixer)"

definition u_meet_constant_requirement ::
  "node_model \<Rightarrow> handle \<Rightarrow> Requirement \<Rightarrow> handle \<Rightarrow> string \<Rightarrow> RequirementsFixer
     \<Rightarrow> handle result" where
  "u_meet_constant_requirement M node requirement consumer edge self =
     (if node_meets_requirement M node requirement then Inr (node, self)
      else if type_meets_requirement (inf_type M node) (upper_bound requirement) then
        (let required_type = requirement_to_type requirement in
         if must_be_matrix M requirement then
           (if \<not> isinstance_BMGMatrixType required_type then Inl AssertionError
            else
              (let (result, b) =
                     add_constant_of_matrix_type (cvalue (node_of self node)) required_type
                       (bmg self)
               in if \<not> node_meets_requirement M result requirement then Inl AssertionError
                  else Inr (result, self\<lparr>bmg := b\<rparr>)))
         else
           (let (result, b) =
                  add_constant_of_type (cvalue (node_of self node)) required_type (bmg self)
            in if \<not> node_meets_requirement M result requirement then Inl AssertionError
               else Inr (result, self\<lparr>bmg := b\<rparr>)))
      else Inr (node, self\<lparr>errors := errors self @ [Violation node requirement consumer edge]\<rparr>))"

definition u_meet_distribution_requirement ::
  "node_model \<Rightarrow> handle \<Rightarrow> Requirement \<Rightarrow> handle \<Rightarrow> string \<Rightarrow> RequirementsFixer
     \<Rightarrow> handle result" where
  "u_meet_distribution_requirement M node requirement consumer edge self =
     (if class_of self consumer \<noteq> bn_SampleNode then Inl AssertionError
      else if requirement \<noteq> Exact (inf_type M node) then Inl AssertionError
      else Inr (node, self))"

definition u_meet_map_requirement ::
  "node_model \<Rightarrow> handle \<Rightarrow> Requirement \<Rightarrow> handle \<Rightarrow> string \<Rightarrow> RequirementsFixer
     \<Rightarrow> handle result" where
  "u_meet_map_requirement M node requirement consumer edge self =
     (if class_of self consumer \<noteq> bn_IndexNodeDeprecated then Inl AssertionError
      else if requirement \<noteq> Exact (inf_type M node) then Inl AssertionError
      else Inr (node, self))"

definition u_can_force_to_prob :: "BMGLatticeType \<Rightarrow> Requirement \<Rightarrow> bool" where
  "u_can_force_to_prob it requirement =
     ((requirement = Exact Probability \<or> requirement = upper_bound (Exact Probability))
      \<and> (it = Real \<or> it = PositiveReal))"

text \<open>
  The rank that decreases along the recursion of \<^verbatim>\<open>meet_requirement\<close>: a
  multiplication or power may be rewritten into an if-then-else, which is neither, and a
  probability requirement may be replaced by the requirement of the real or positive
  real infimum type, which is not a probability requirement.
\<close>

definition rank :: "RequirementsFixer \<Rightarrow> handle \<Rightarrow> Requirement \<Rightarrow> nat" where
  "rank self node requirement =
     (if class_of self node \<in> {bn_MultiplicationNode, bn_PowerNode} then 8 else 0)
     + (if requirement = Exact Probability \<or> requirement = UpperBound Probability
        then 4 else 0)"

text \<open>
  A factory returns a handle of the arena, and the node at the handle is the node asked
  for; the termination proof below needs this of \<^verbatim>\<open>add_if_then_else\<close>.
\<close>

lemma index_of_Some: "index_of x xs = Some h \<Longrightarrow> h < length xs \<and> xs ! h = x"
  by (induction xs arbitrary: h) (auto split: if_splits)

lemma intern_node: "intern n b = (h, b') \<Longrightarrow> h < length (arena b') \<and> arena b' ! h = n"
  by (auto simp: intern_def index_of_Some split: option.splits)

lemma add_if_then_else_class:
  "(h, b') = add_if_then_else c a z b \<Longrightarrow>
     \<forall>self. class_of (self\<lparr>bmg := b'\<rparr>) h = bn_IfThenElseNode"
  using intern_node [of _ b h b']
  by (auto simp: add_if_then_else_def add_operator_def class_of_def node_of_def)

text \<open>
  The five methods through which \<^verbatim>\<open>meet_requirement\<close> calls itself. An
  \<^verbatim>\<open>assert\<close> that fails is \<open>Inl AssertionError\<close>; \<^verbatim>\<open>node.left\<close> and
  \<^verbatim>\<open>node.right\<close> are the first and second input of a binary operator.
\<close>

function
  u_convert_malformed_multiplication ::
    "node_model \<Rightarrow> handle \<Rightarrow> BMGLatticeType \<Rightarrow> handle \<Rightarrow> string \<Rightarrow> RequirementsFixer
       \<Rightarrow> handle result"
and u_convert_malformed_power ::
    "node_model \<Rightarrow> handle \<Rightarrow> BMGLatticeType \<Rightarrow> handle \<Rightarrow> string \<Rightarrow> RequirementsFixer
       \<Rightarrow> handle result"
and u_convert_node ::
    "node_model \<Rightarrow> handle \<Rightarrow> BMGLatticeType \<Rightarrow> handle \<Rightarrow> string \<Rightarrow> RequirementsFixer
       \<Rightarrow> handle result"
and u_meet_operator_requirement ::
    "node_model \<Rightarrow> handle \<Rightarrow> Requirement \<Rightarrow> handle \<Rightarrow> string \<Rightarrow> RequirementsFixer
       \<Rightarrow> handle result"
and meet_requirement ::
    "node_model \<Rightarrow> handle \<Rightarrow> Requirement \<Rightarrow> handle \<Rightarrow> string \<Rightarrow> RequirementsFixer
       \<Rightarrow> handle result"
where
  "u_convert_malformed_multiplication M node requirement consumer edge self =
     (if graph_type M node \<noteq> Malformed then Inl AssertionError
      else if supremum [inf_type M node, requirement] \<noteq> requirement then Inl AssertionError
      else if length (inputs (node_of self node)) < 2 then Inl IndexError
      else
        (let left = inputs (node_of self node) ! 0;
             right = inputs (node_of self node) ! 1;
             lgt = graph_type M left;
             rgt = graph_type M right
         in if \<not> (lgt \<noteq> Malformed \<and> rgt \<noteq> Malformed) then Inl AssertionError
            else if \<not> (lgt = Boolean \<or> rgt = Boolean) then Inl AssertionError
            else if lgt = Boolean then
              (case add_constant_of_type (PyFloat (Finite 0)) rgt (bmg self) of (zero, b) \<Rightarrow>
               case add_if_then_else left right zero b of (if_then_else, b') \<Rightarrow>
                 if graph_type M if_then_else \<noteq> rgt then Inl AssertionError
                 else meet_requirement M if_then_else (Exact requirement) consumer edge
                        (self\<lparr>bmg := b'\<rparr>))
            else
              (case add_constant_of_type (PyFloat (Finite 0)) lgt (bmg self) of (zero, b) \<Rightarrow>
               case add_if_then_else right left zero b of (if_then_else, b') \<Rightarrow>
                 if graph_type M if_then_else \<noteq> lgt then Inl AssertionError
                 else meet_requirement M if_then_else (Exact requirement) consumer edge
                        (self\<lparr>bmg := b'\<rparr>))))"
| "u_convert_malformed_power M node requirement consumer edge self =
     (if graph_type M node \<noteq> Malformed then Inl AssertionError
      else if supremum [inf_type M node, requirement] \<noteq> requirement then Inl AssertionError
      else if length (inputs (node_of self node)) < 2 then Inl IndexError
      else
        (let left = inputs (node_of self node) ! 0;
             right = inputs (node_of self node) ! 1;
             lgt = graph_type M left;
             rgt = graph_type M right
         in if lgt = Malformed then Inl AssertionError
            else if rgt \<noteq> Boolean then Inl AssertionError
            else
              (case add_constant_of_type (PyFloat (Finite 1)) lgt (bmg self) of (one, b) \<Rightarrow>
               case add_if_then_else right left one b of (if_then_else, b') \<Rightarrow>
                 if graph_type M if_then_else \<noteq> lgt then Inl AssertionError
                 else meet_requirement M if_then_else (Exact requirement) consumer edge
                        (self\<lparr>bmg := b'\<rparr>))))"
| "u_convert_node M node requirement consumer edge self =
     (if \<not> graph_type M node \<noteq> requirement then Inl AssertionError
      else if supremum [inf_type M node, requirement] \<noteq> requirement then Inl AssertionError
      else if class_of self node = bn_MultiplicationNode \<and> graph_type M node = Malformed then
        u_convert_malformed_multiplication M node requirement consumer edge self
      else if class_of self node = bn_PowerNode \<and> graph_type M node = Malformed then
        u_convert_malformed_power M node requirement consumer edge self
      else if lattice_type requirement = torch_Tensor then
        Inl (ValueError ''Unsupported type requirement: Tensor'')
      else if requirement = Real then
        (case add_to_real_c node (bmg self) of (result, b) \<Rightarrow> Inr (result, self\<lparr>bmg := b\<rparr>))
      else if requirement = PositiveReal then
        (case add_to_positive_real node (bmg self) of (result, b) \<Rightarrow>
           Inr (result, self\<lparr>bmg := b\<rparr>))
      else if \<not> (requirement = Natural \<or> requirement = Probability) then Inl AssertionError
      else if supremum [inf_type M node, Boolean] \<noteq> Boolean then Inl AssertionError
      else
        (case add_constant_of_type (PyFloat (Finite 0)) requirement (bmg self) of (zero, b) \<Rightarrow>
         case add_constant_of_type (PyFloat (Finite 1)) requirement b of (one, b') \<Rightarrow>
         case add_if_then_else node one zero b' of (result, b'') \<Rightarrow>
           Inr (result, self\<lparr>bmg := b''\<rparr>)))"
| "u_meet_operator_requirement M node requirement consumer edge self =
     (if node_meets_requirement M node requirement then Inr (node, self)
      else
        (let it = inf_type M node
         in if \<not> type_meets_requirement it (upper_bound requirement) then
              (if u_can_force_to_prob it requirement then
                 (case meet_requirement M node (Exact it) consumer edge self of
                    Inl e \<Rightarrow> Inl e
                  | Inr (operand, self') \<Rightarrow>
                      (case add_to_probability operand (bmg self') of (result, b) \<Rightarrow>
                         if \<not> node_meets_requirement M result requirement
                         then Inl AssertionError
                         else Inr (result, self'\<lparr>bmg := b\<rparr>)))
               else
                 Inr (node,
                      self\<lparr>errors := errors self
                                        @ [Violation node requirement consumer edge]\<rparr>))
            else
              (case (case requirement of
                       Exact t \<Rightarrow> u_convert_node M node t consumer edge self
                     | UpperBound _ \<Rightarrow> u_convert_node M node it consumer edge self) of
                 Inl e \<Rightarrow> Inl e
               | Inr (result, self') \<Rightarrow>
                   if \<not> node_meets_requirement M result requirement then Inl AssertionError
                   else Inr (result, self'))))"
| "meet_requirement M node requirement consumer edge self =
     (if class_of self node = bn_Observation then Inl AssertionError
      else if class_of self node = bn_Query then Inl AssertionError
      else if class_of self node = bn_ConstantNode then
        u_meet_constant_requirement M node requirement consumer edge self
      else if class_of self node = bn_DistributionNode then
        u_meet_distribution_requirement M node requirement consumer edge self
      else if class_of self node = bn_MapNode then
        u_meet_map_requirement M node requirement consumer edge self
      else if isinstance_OperatorNode (class_of self node) then
        u_meet_operator_requirement M node requirement consumer edge self
      else Inl AssertionError)"
  by pat_completeness auto

text \<open>
  The recursion ends: the node handed to the recursive call is an if-then-else that a
  factory has just returned, or the requirement has become that of a real or positive
  real type.
\<close>

termination
  apply (relation "measure (\<lambda>x. case x of
      Inl (Inl (M, node, t, consumer, edge, self)) \<Rightarrow> 8
    | Inl (Inr (M, node, t, consumer, edge, self)) \<Rightarrow> 8
    | Inr (Inl (M, node, t, consumer, edge, self)) \<Rightarrow> rank self node (Exact Real) + 1
    | Inr (Inr (Inl (M, node, r, consumer, edge, self))) \<Rightarrow> rank self node r + 2
    | Inr (Inr (Inr (M, node, r, consumer, edge, self))) \<Rightarrow> rank self node r + 3)")
  apply simp_all
  apply (auto simp: rank_def u_can_force_to_prob_def Probability_def Real_def
                    PositiveReal_def
               dest!: add_if_then_else_class)
  done

declare u_convert_malformed_multiplication.simps [simp del]
declare u_convert_malformed_power.simps [simp del]
declare u_convert_node.simps [simp del]
declare u_meet_operator_requirement.simps [simp del]
declare meet_requirement.simps [simp del]

text \<open>
  \<^verbatim>\<open>fix_problems\<close>. A \<^verbatim>\<open>for\<close> loop whose body may raise is \<open>for_each\<close>. The
  assignment \<^verbatim>\<open>node.inputs[i] = ...\<close> reads \<^verbatim>\<open>node.inputs[i]\<close> and
  \<^verbatim>\<open>edges[i]\<close> first (an index past the end raises \<^verbatim>\<open>IndexError\<close>), calls
  \<^verbatim>\<open>meet_requirement\<close> and stores the result in the input list of the node object.
\<close>

fun for_each :: "('a \<Rightarrow> 's \<Rightarrow> error + 's) \<Rightarrow> 'a list \<Rightarrow> 's \<Rightarrow> error + 's" where
  "for_each body [] s = Inr s"
| "for_each body (x # xs) s =
     (case body x s of Inl e \<Rightarrow> Inl e | Inr s' \<Rightarrow> for_each body xs s')"

definition set_input :: "handle \<Rightarrow> nat \<Rightarrow> handle \<Rightarrow> RequirementsFixer \<Rightarrow> RequirementsFixer" where
  "set_input node i v self =
     self\<lparr>bmg := (bmg self)\<lparr>arena :=
       (arena (bmg self))
         [node := (node_of self node)\<lparr>inputs := (inputs (node_of self node))[i := v]\<rparr>]\<rparr>\<rparr>"

definition fix_edge ::
  "node_model \<Rightarrow> handle \<Rightarrow> Requirement list \<Rightarrow> string list \<Rightarrow> nat \<Rightarrow> RequirementsFixer
     \<Rightarrow> error + RequirementsFixer" where
  "fix_edge M node reqs edges i self =
     (if \<not> i < length (inputs (node_of self node)) then Inl IndexError
      else if \<not> i < length edges then Inl IndexError
      else
        (case meet_requirement M (inputs (node_of self node) ! i) (reqs ! i) node (edges ! i)
                self of
           Inl e \<Rightarrow> Inl e
         | Inr (v, self') \<Rightarrow>
             if \<not> i < length (inputs (node_of self' node)) then Inl IndexError
             else Inr (set_input node i v self')))"

definition fix_node :: "node_model \<Rightarrow> handle \<Rightarrow> RequirementsFixer \<Rightarrow> error + RequirementsFixer" where
  "fix_node M node self =
     (let reqs = requirements M node;
          edges = get_edge_labels M node
      in for_each (fix_edge M node reqs edges) [0..<length reqs] self)"

definition fix_problems :: "node_model \<Rightarrow> RequirementsFixer \<Rightarrow> error + RequirementsFixer" where
  "fix_problems M self =
     (let nodes = traverse_from_roots M (arena (bmg self))
      in for_each (fix_node M) nodes self)"

text \<open>
  What the statements about the fixer are about. A handle refers to a node object, and
  a reference is never dangling: in a closed graph every input of every node is a node
  of the arena. \<open>edge_settled\<close> is what is claimed of an edge after the fixer has run:
  the producer meets the requirement, or the violation is in the error report.
  \<open>edge_fixed\<close> is what the fixer leaves behind on an edge that it has visited: the
  edge is settled, or its producer is a distribution or a map node and the requirement
  is the infimum type of the producer, which is all that the source asks of such an
  edge.
\<close>

definition closed_arena :: "bn_node list \<Rightarrow> bool" where
  "closed_arena ns = (\<forall>n \<in> set ns. \<forall>h \<in> set (inputs n). h < length ns)"

definition edge_settled ::
  "node_model \<Rightarrow> RequirementsFixer \<Rightarrow> handle \<Rightarrow> nat \<Rightarrow> bool" where
  "edge_settled M self node i =
     (meets_requirement (graph_type M (inputs (node_of self node) ! i))
        (requirements M node ! i)
      \<or> Violation (inputs (node_of self node) ! i) (requirements M node ! i) node
           (get_edge_labels M node ! i) \<in> set (errors self))"

definition edge_fixed ::
  "node_model \<Rightarrow> RequirementsFixer \<Rightarrow> handle \<Rightarrow> nat \<Rightarrow> bool" where
  "edge_fixed M self node i =
     (edge_settled M self node i
      \<or> class_of self (inputs (node_of self node) ! i) \<in> {bn_DistributionNode, bn_MapNode}
        \<and> requirements M node ! i = Exact (inf_type M (inputs (node_of self node) ! i)))"

text \<open>
  What a call of the fixer's methods does to the fixer's state, for the proof that
  \<^verbatim>\<open>fix_problems\<close> fixes every edge that it visits: the arena and the error report
  only grow (\<open>grows\<close>), the graph stays closed (\<open>graph_inv\<close>), and the node returned
  is a node of the arena (\<open>valid\<close>). \<open>settled\<close> is the invariant of the two loops of
  \<^verbatim>\<open>fix_problems\<close>, over the set of edges already visited.
\<close>

definition grows :: "RequirementsFixer \<Rightarrow> RequirementsFixer \<Rightarrow> bool" where
  "grows s s' = ((\<exists>xs. arena (bmg s') = arena (bmg s) @ xs) \<and> (\<exists>es. errors s' = errors s @ es))"

definition graph_inv :: "RequirementsFixer \<Rightarrow> bool" where
  "graph_inv s = closed_arena (arena (bmg s))"

definition valid :: "RequirementsFixer \<Rightarrow> handle \<Rightarrow> bool" where
  "valid s h = (h < length (arena (bmg s)))"

definition step_ok ::
  "RequirementsFixer \<Rightarrow> handle \<Rightarrow> handle result \<Rightarrow> bool" where
  "step_ok s node res =
     (\<forall>r s'. res = Inr (r, s') \<longrightarrow>
        grows s s' \<and> (graph_inv s \<longrightarrow> valid s node \<longrightarrow> graph_inv s' \<and> valid s' r))"

definition settled :: "node_model \<Rightarrow> RequirementsFixer \<Rightarrow> (handle \<times> nat) set \<Rightarrow> bool" where
  "settled M s S =
     (\<forall>(n, i) \<in> S. valid s n \<and> valid s (inputs (node_of s n) ! i) \<and> edge_fixed M s n i)"

subsection \<open>Example graphs\<close>

text \<open>
  The graph of a binary operator (node 1) whose left input is the constant \<open>3\<close>
  (node 0, a natural) and whose right input is an operator of tensor type (node 2).
  The operator requires a real on the left and a probability on the right. A constant
  made for the type real is a real; every other node that is not in the graph at the
  start is given the type tensor.
\<close>

definition example_model :: node_model where
  "example_model =
     \<lparr>graph_type = (\<lambda>h. if h = 0 then Natural else if h = 3 then Real else Tensor),
      inf_type = (\<lambda>h. if h = 0 then Natural else if h = 3 then Real else Tensor),
      requirements = (\<lambda>h. if h = 1 then [Exact Real, Exact Probability] else []),
      get_edge_labels = (\<lambda>h. if h = 1 then [''left'', ''right''] else []),
      must_be_matrix = (\<lambda>r. False),
      traverse_from_roots = (\<lambda>ns. [0, 2, 1])\<rparr>"

definition example_graph :: graph_builder where
  "example_graph =
     \<lparr>arena =
        [\<lparr>node_class = bn_ConstantNode, inputs = [], cvalue = PyInt 3, ctype = None\<rparr>,
         \<lparr>node_class = bn_OperatorNode, inputs = [0, 2], cvalue = PyOther, ctype = None\<rparr>,
         \<lparr>node_class = bn_OperatorNode, inputs = [], cvalue = PyOther, ctype = None\<rparr>]\<rparr>"

text \<open>
  The graph of a multiplication (node 2) of a Boolean operator (node 0) by an operator
  (node 1) whose graph type is the parameter \<open>t\<close>, consumed by node 3. The
  multiplication is malformed and its infimum type is natural; the if-then-else that
  replaces it (node 5, after the constant 0 at node 4) has the graph type \<open>u\<close> and, as
  every node that is not in the graph at the start, the infimum type tensor.
\<close>

definition product_model_of :: "BMGLatticeType \<Rightarrow> BMGLatticeType \<Rightarrow> node_model" where
  "product_model_of t u =
     \<lparr>graph_type = (\<lambda>h. if h = 0 then Boolean else if h = 1 then t
                          else if h = 2 then Malformed else if h = 5 then u else Tensor),
      inf_type = (\<lambda>h. if h = 0 then Boolean else if h \<le> 2 then Natural else Tensor),
      requirements = (\<lambda>h. if h = 3 then [Exact Natural] else []),
      get_edge_labels = (\<lambda>h. if h = 3 then [''operand''] else []),
      must_be_matrix = (\<lambda>r. False),
      traverse_from_roots = (\<lambda>ns. [0, 1, 2, 3])\<rparr>"

definition product_model :: "BMGLatticeType \<Rightarrow> node_model" where
  "product_model t = product_model_of t t"

definition product_graph :: graph_builder where
  "product_graph =
     \<lparr>arena =
        [\<lparr>node_class = bn_OperatorNode, inputs = [], cvalue = PyOther, ctype = None\<rparr>,
         \<lparr>node_class = bn_OperatorNode, inputs = [], cvalue = PyOther, ctype = None\<rparr>,
         \<lparr>node_class = bn_MultiplicationNode, inputs = [0, 1], cvalue = PyOther,
          ctype = None\<rparr>,
         \<lparr>node_class = bn_OperatorNode, inputs = [2], cvalue = PyOther, ctype = None\<rparr>]\<rparr>"

text \<open>
  The graph of an operator (node 1) that requires a real of its input, a malformed
  operator whose infimum type is real (node 0). The conversion node that the fixer puts
  between them (node 2) is a real and requires a real at most of its own input.
\<close>

definition wrapped_model :: node_model where
  "wrapped_model =
     \<lparr>graph_type = (\<lambda>h. if h = 0 then Malformed else Real),
      inf_type = (\<lambda>h. Real),
      requirements = (\<lambda>h. if h = 1 then [Exact Real]
                            else if h = 2 then [UpperBound Real] else []),
      get_edge_labels = (\<lambda>h. if h = 1 \<or> h = 2 then [''operand''] else []),
      must_be_matrix = (\<lambda>r. False),
      traverse_from_roots = (\<lambda>ns. [0, 1])\<rparr>"

definition wrapped_graph :: graph_builder where
  "wrapped_graph =
     \<lparr>arena =
        [\<lparr>node_class = bn_OperatorNode, inputs = [], cvalue = PyOther, ctype = None\<rparr>,
         \<lparr>node_class = bn_OperatorNode, inputs = [0], cvalue = PyOther, ctype = None\<rparr>]\<rparr>"

text \<open>
  The graph of a sample (node 1) of a distribution (node 0) whose infimum type is
  Boolean, which is what the sample requires, and whose graph type is \<open>Malformed\<close>.
\<close>

definition sample_model :: node_model where
  "sample_model =
     \<lparr>graph_type = (\<lambda>h. if h = 0 then Malformed else Boolean),
      inf_type = (\<lambda>h. Boolean),
      requirements = (\<lambda>h. if h = 1 then [Exact Boolean] else []),
      get_edge_labels = (\<lambda>h. if h = 1 then [''operand''] else []),
      must_be_matrix = (\<lambda>r. False),
      traverse_from_roots = (\<lambda>ns. [0, 1])\<rparr>"

definition sample_graph :: graph_builder where
  "sample_graph =
     \<lparr>arena =
        [\<lparr>node_class = bn_DistributionNode, inputs = [], cvalue = PyOther, ctype = None\<rparr>,
         \<lparr>node_class = bn_SampleNode, inputs = [0], cvalue = PyOther, ctype = None\<rparr>]\<rparr>"

section \<open>Properties of the type lattice\<close>

lemmas scalar_defs =
  One_def Zero_def Boolean_def Natural_def Probability_def PositiveReal_def
  NegativeReal_def Real_def

text \<open>
  The two \<^verbatim>\<open>isinstance\<close> assertions of \<^verbatim>\<open>_supremum\<close> hold whenever they are reached.
\<close>

lemma u_supremum_asserts:
  assumes "t \<noteq> u" "t \<noteq> bottom" "u \<noteq> bottom" "\<not> (t = top \<or> u = top)"
          "\<not> (t = Tensor \<or> u = Tensor)"
  shows "isinstance_BMGMatrixType t \<and> isinstance_BMGMatrixType u"
  using assms by (cases t; cases u) (auto simp: isinstance_BMGMatrixType_def)

lemma u_supremum_Matrix:
  "u_supremum (Matrix k r c) (Matrix k' r' c') =
     (if k = k' \<and> r = r' \<and> c = c' then Matrix k r c
      else if r \<noteq> r' \<or> c \<noteq> c' then Tensor
      else Matrix (u_lookup k k') r c)"
  by (simp add: u_supremum_def)

text \<open>
  C2. The claim: \<^verbatim>\<open>_supremum\<close> is commutative and associative, and its table for two
  matrix types of equal dimensions is symmetric. The table of the source is not
  symmetric: the entry (S, B) is \<^verbatim>\<open>PositiveRealMatrix\<close> and the entry (B, S) is
  \<^verbatim>\<open>ProbabilityMatrix\<close>; the entry (S, Z) is \<^verbatim>\<open>RealMatrix\<close> and the entry (Z, S) is
  \<^verbatim>\<open>SimplexMatrix\<close>. So the supremum of a simplex and a Boolean depends on the order of
  the arguments, and the triple (B, S, B) breaks associativity. The theorem evaluates
  the source at these inputs.
\<close>

theorem supremum_table_asymmetric:
  "u_supremum (Matrix SimplexMatrix 1 1) Boolean = PositiveReal
   \<and> u_supremum Boolean (Matrix SimplexMatrix 1 1) = Probability
   \<and> u_supremum (Matrix SimplexMatrix 1 1) Zero = Real
   \<and> u_supremum Zero (Matrix SimplexMatrix 1 1) = Matrix SimplexMatrix 1 1
   \<and> u_supremum Boolean (u_supremum (Matrix SimplexMatrix 1 1) Boolean) = PositiveReal
   \<and> u_supremum (u_supremum Boolean (Matrix SimplexMatrix 1 1)) Boolean = Probability"
  by (simp add: scalar_defs u_supremum_Matrix)

theorem supremum_table_asymmetric_witness:
  "u_supremum (Matrix SimplexMatrix 1 1) Boolean
     \<noteq> u_supremum Boolean (Matrix SimplexMatrix 1 1)
   \<and> u_supremum Boolean (u_supremum (Matrix SimplexMatrix 1 1) Boolean)
     \<noteq> u_supremum (u_supremum Boolean (Matrix SimplexMatrix 1 1)) Boolean"
  using supremum_table_asymmetric by (simp add: scalar_defs u_supremum_Matrix)

text \<open>
  C3. The claim: for all lattice types \<open>t\<close> and \<open>u\<close>, including \<open>t = Malformed\<close>,
  \<^verbatim>\<open>meets_requirement(t, UpperBound(u))\<close> holds exactly when
  \<^verbatim>\<open>_supremum(t, u) == u\<close>. The source returns \<^verbatim>\<open>False\<close> first when \<open>t\<close> is
  \<^verbatim>\<open>Malformed\<close> ("a malformed node meets no requirements"), while the supremum of
  \<^verbatim>\<open>Malformed\<close> with itself is \<^verbatim>\<open>Malformed\<close>: the equivalence fails at
  \<open>t = u = Malformed\<close>.
\<close>

theorem meets_upper_bound_malformed_counterexample:
  "meets_requirement Malformed (UpperBound Malformed)
     \<noteq> (u_supremum Malformed Malformed = Malformed)"
  by (simp add: meets_requirement_def u_supremum_def)

text \<open>
  C3, as amended: the equivalence holds for every pair of lattice types other than
  \<open>t = u = Malformed\<close> (so for every \<open>t\<close> that is not \<^verbatim>\<open>Malformed\<close>, and also for
  \<open>t = Malformed\<close> against any other bound, where both sides are false).
\<close>

theorem meets_upper_bound_iff:
  "(t, u) \<noteq> (Malformed, Malformed) \<Longrightarrow>
     meets_requirement t (UpperBound u) = (u_supremum t u = u)"
  by (auto simp: meets_requirement_def u_supremum_def)

theorem meets_upper_bound_iff_witness:
  "(Malformed, Real) \<noteq> (Malformed, Malformed)
   \<and> meets_requirement Malformed (UpperBound Real) = (u_supremum Malformed Real = Real)
   \<and> (Natural, PositiveReal) \<noteq> (Malformed, Malformed)
   \<and> meets_requirement Natural (UpperBound PositiveReal)
   \<and> u_supremum Natural PositiveReal = PositiveReal"
  using meets_upper_bound_iff [of Malformed Real]
        meets_upper_bound_iff [of Natural PositiveReal]
  by (simp add: scalar_defs u_supremum_Matrix)

text \<open>
  C10. Every instance of a \<^verbatim>\<open>BroadcastMatrixType\<close> class has \<^verbatim>\<open>bool_element\<close> in
  its \<^verbatim>\<open>element_type\<close> field, whatever element marker the constructor was given: the
  marker only reaches the names. The first conjunct is the initialiser itself, for any
  argument; the next six are the six broadcast classes, at any dimensions; the last two
  say that the marker passed by \<^verbatim>\<open>RealMatrix\<close> is not the one stored, and that the
  objects of two broadcast classes still differ (in class and names), though not in the
  field.
\<close>

theorem broadcast_element_type_is_bool:
  "element_type (BroadcastMatrixType_init e r c) = bool_element
   \<and> element_type (matrix_init BooleanMatrix r c) = bool_element
   \<and> element_type (matrix_init NaturalMatrix r c) = bool_element
   \<and> element_type (matrix_init ProbabilityMatrix r c) = bool_element
   \<and> element_type (matrix_init PositiveRealMatrix r c) = bool_element
   \<and> element_type (matrix_init NegativeRealMatrix r c) = bool_element
   \<and> element_type (matrix_init RealMatrix r c) = bool_element
   \<and> real_element \<noteq> bool_element
   \<and> matrix_fields (Matrix RealMatrix r c) \<noteq> matrix_fields (Matrix NaturalMatrix r c)"
  by (simp add: BroadcastMatrixType_init_def BMGMatrixType_init_def Let_def
        real_element_def bool_element_def natural_element_def)

text \<open>
  \<^verbatim>\<open>int(v)\<close> of a finite float that is an integer is that integer, and a finite
  float that is not an integer fails the test \<^verbatim>\<open>v == int(v)\<close>.
\<close>

lemma int_of_float_of_int: "int_of_float (Finite (of_int i)) = Inr i"
  by simp

lemma not_integer_float: "v \<notin> \<int> \<Longrightarrow> \<not> float_eq_int (Finite v) i"
  by (metis Ints_of_int float_eq_int.simps(1))

text \<open>
  C8, the claim refuted at the floats \<^verbatim>\<open>float('inf')\<close>, which is above 1, and
  \<^verbatim>\<open>float('-inf')\<close>, which is below 0: \<^verbatim>\<open>type_of_value\<close> evaluates \<^verbatim>\<open>int(v)\<close>
  before it looks at the range, and \<^verbatim>\<open>int(v)\<close> raises \<^verbatim>\<open>OverflowError\<close>; no type
  is returned.
\<close>

theorem type_of_value_infinity_counterexample:
  "float_lt (Finite 1) PosInf
   \<and> type_of_value (PyFloat PosInf)
       = Inl (OverflowError ''cannot convert float infinity to integer'')
   \<and> type_of_value (PyFloat PosInf) \<noteq> Inr PositiveReal
   \<and> float_lt NegInf (Finite 0)
   \<and> type_of_value (PyFloat NegInf)
       = Inl (OverflowError ''cannot convert float infinity to integer'')
   \<and> type_of_value (PyFloat NegInf) \<noteq> Inr NegativeReal"
  by simp

text \<open>
  C8, amended. \<^verbatim>\<open>type_of_value\<close> on the literals: \<^verbatim>\<open>True\<close> is one-hot and
  \<^verbatim>\<open>False\<close> is zero (both 1 x 1); the integers 0 and 1 are zero and one-hot, an
  integer of at least 2 is natural and a negative integer is negative real; a finite
  float equal to an integer is classified as that integer; any other finite float is a
  probability strictly between 0 and 1, a positive real above 1 and a negative real
  below 0.
\<close>

theorem type_of_value_classifies:
  "type_of_value (PyBool True) = Inr (Matrix OneHotMatrix 1 1)
   \<and> type_of_value (PyBool False) = Inr (Matrix ZeroMatrix 1 1)
   \<and> type_of_value (PyInt 0) = Inr Zero
   \<and> type_of_value (PyInt 1) = Inr One
   \<and> (i \<ge> 2 \<longrightarrow> type_of_value (PyInt i) = Inr Natural)
   \<and> (i < 0 \<longrightarrow> type_of_value (PyInt i) = Inr NegativeReal)
   \<and> (float_eq_int (Finite v) i \<longrightarrow>
        type_of_value (PyFloat (Finite v)) = type_of_value (PyInt i))
   \<and> ((\<forall>k. \<not> float_eq_int (Finite v) k) \<longrightarrow>
        (float_lt (Finite 0) (Finite v) \<and> float_lt (Finite v) (Finite 1) \<longrightarrow>
           type_of_value (PyFloat (Finite v)) = Inr Probability)
      \<and> (float_lt (Finite 1) (Finite v) \<longrightarrow>
           type_of_value (PyFloat (Finite v)) = Inr PositiveReal)
      \<and> (float_lt (Finite v) (Finite 0) \<longrightarrow>
           type_of_value (PyFloat (Finite v)) = Inr NegativeReal))"
proof -
  have eq: "type_of_value (PyFloat (Finite v)) = type_of_value (PyInt i)"
    if "float_eq_int (Finite v) i"
    using that by (simp add: type_of_int_def)
  have ne: "\<not> float_eq_int (Finite v) (if 0 \<le> v then \<lfloor>v\<rfloor> else \<lceil>v\<rceil>)"
    if "\<forall>k. \<not> float_eq_int (Finite v) k"
    using that by blast
  show ?thesis
    using eq ne by (auto simp: type_of_int_def scalar_defs)
qed

theorem type_of_value_classifies_witness:
  "(5::int) \<ge> 2 \<and> type_of_value (PyInt 5) = Inr Natural
   \<and> type_of_value (PyFloat (Finite 5)) = Inr Natural
   \<and> type_of_value (PyFloat (Finite (1 / 2))) = Inr Probability
   \<and> (- 3 :: int) < 0 \<and> type_of_value (PyInt (- 3)) = Inr NegativeReal
   \<and> type_of_value (PyFloat (Finite (- 3))) = Inr NegativeReal
   \<and> type_of_value (PyFloat (Finite (5 / 2))) = Inr PositiveReal
   \<and> type_of_value (PyFloat (Finite (- 3 / 2))) = Inr NegativeReal"
proof -
  have a: "(1 / 2 :: rat) \<notin> \<int>" "(5 / 2 :: rat) \<notin> \<int>" "(- 3 / 2 :: rat) \<notin> \<int>"
    using of_int_floor [of "1 / 2 :: rat"] of_int_floor [of "5 / 2 :: rat"]
      of_int_floor [of "- 3 / 2 :: rat"]
    by auto
  have b: "\<forall>k. \<not> float_eq_int (Finite (1 / 2)) k" "\<forall>k. \<not> float_eq_int (Finite (5 / 2)) k"
          "\<forall>k. \<not> float_eq_int (Finite (- 3 / 2)) k"
    using a not_integer_float by blast+
  show ?thesis
    using b type_of_value_classifies [of 5 5 ] type_of_value_classifies [of "- 3" "- 3"]
      type_of_value_classifies [of 5 "1 / 2"] type_of_value_classifies [of 5 "5 / 2"]
      type_of_value_classifies [of 5 "- 3 / 2"]
    by (simp add: type_of_int_def scalar_defs)
qed

section \<open>Properties of the graph builder\<close>


lemma keys_update: "set (map fst (AList.update k v al)) = insert k (set (map fst al))"
  by (induction al) auto

lemma update_absent: "k \<notin> set (map fst al) \<Longrightarrow> AList.update k v al = al @ [(k, v)]"
  by (induction al) auto

lemma child_size: "c \<in> set cs \<Longrightarrow> size c < size (BMGNode i k cs)"
  by (induction cs) auto

lemma fold_keys_bound:
  assumes "\<And>c b. c \<in> set cs \<Longrightarrow> keys (add_node c b) \<subseteq> keys b \<union> {c} \<union> {m. size m < size c}"
  shows "keys (fold add_node cs b) \<subseteq> keys b \<union> {m. \<exists>c \<in> set cs. size m \<le> size c}"
  using assms
proof (induction cs arbitrary: b)
  case Nil
  then show ?case by simp
next
  case (Cons a cs)
  have "keys (fold add_node cs (add_node a b))
          \<subseteq> keys (add_node a b) \<union> {m. \<exists>c \<in> set cs. size m \<le> size c}"
    using Cons.IH Cons.prems by simp
  moreover have "keys (add_node a b) \<subseteq> keys b \<union> {a} \<union> {m. size m < size a}"
    using Cons.prems by simp
  ultimately show ?case by fastforce
qed

lemma add_node_keys_bound:
  "keys (add_node n b) \<subseteq> keys b \<union> {n} \<union> {m. size m < size n}"
proof (induction n b rule: add_node.induct)
  case (1 i k cs self)
  show ?case
  proof (cases "BMGNode i k cs \<in> set (map fst (nodes self))")
    case True
    then show ?thesis by auto
  next
    case False
    have "keys (fold add_node cs self) \<subseteq> keys self \<union> {m. \<exists>c \<in> set cs. size m \<le> size c}"
      by (rule fold_keys_bound) (use 1 False in auto)
    then have "keys (fold add_node cs self) \<subseteq> keys self \<union> {m. size m < size (BMGNode i k cs)}"
      using child_size [of _ cs i k] by fastforce
    moreover have "keys (add_node (BMGNode i k cs) self)
                     = insert (BMGNode i k cs) (keys (fold add_node cs self))"
      using False by (simp add: keys_def keys_update Let_def del: set_map)
    ultimately show ?thesis by auto
  qed
qed

lemma extends_refl: "extends b b"
  by (simp add: extends_def)

lemma extends_trans: "extends a b \<Longrightarrow> extends b c \<Longrightarrow> extends a c"
  by (auto simp: extends_def)

lemma extends_keys: "extends b b' \<Longrightarrow> keys b \<subseteq> keys b'"
  by (auto simp: extends_def keys_def)

lemma builder_inv_append:
  assumes inv: "builder_inv b" and new: "n \<notin> keys b" and cs: "set (children n) \<subseteq> keys b"
  shows "builder_inv (b\<lparr>nodes := nodes b @ [(n, length (nodes b))]\<rparr>)"
proof -
  have idx: "\<And>m i. (m, i) \<in> set (nodes b) \<Longrightarrow> i < length (nodes b)"
    using inv by (auto simp: builder_inv_def)
  have look: "\<And>c. c \<in> keys b \<Longrightarrow> \<exists>j. map_of (nodes b) c = Some j \<and> j < length (nodes b)"
  proof -
    fix c assume "c \<in> keys b"
    then obtain j where "map_of (nodes b) c = Some j"
      by (metis keys_def map_of_eq_None_iff not_Some_eq set_map)
    then show "\<exists>j. map_of (nodes b) c = Some j \<and> j < length (nodes b)"
      using idx map_of_SomeD by fastforce
  qed
  have old: "\<And>m i c. (m, i) \<in> set (nodes b) \<Longrightarrow> c \<in> set (children m)
               \<Longrightarrow> \<exists>j. map_of (nodes b) c = Some j \<and> j < i"
    using inv by (fastforce simp: builder_inv_def children_precede_def)
  have keep: "\<And>c j. map_of (nodes b) c = Some j
               \<Longrightarrow> map_of (nodes b @ [(n, length (nodes b))]) c = Some j"
    by (simp add: map_add_Some_iff)
  show ?thesis
    unfolding builder_inv_def children_precede_def
  proof (intro conjI)
    show "distinct (map fst (nodes (b\<lparr>nodes := nodes b @ [(n, length (nodes b))]\<rparr>)))"
      using inv new by (simp add: builder_inv_def keys_def)
    show "\<forall>(m, i) \<in> set (nodes (b\<lparr>nodes := nodes b @ [(n, length (nodes b))]\<rparr>)).
            i < length (nodes (b\<lparr>nodes := nodes b @ [(n, length (nodes b))]\<rparr>))"
      using idx by (auto simp: less_Suc_eq)
    show "\<forall>(m, i) \<in> set (nodes (b\<lparr>nodes := nodes b @ [(n, length (nodes b))]\<rparr>)).
            \<forall>c \<in> set (children m).
              \<exists>j. map_of (nodes (b\<lparr>nodes := nodes b @ [(n, length (nodes b))]\<rparr>)) c = Some j \<and> j < i"
    proof (clarify)
      fix m i c
      assume mi: "(m, i) \<in> set (nodes (b\<lparr>nodes := nodes b @ [(n, length (nodes b))]\<rparr>))"
        and c: "c \<in> set (children m)"
      from mi consider "(m, i) \<in> set (nodes b)" | "m = n" "i = length (nodes b)"
        by auto
      then show "\<exists>j. map_of (nodes (b\<lparr>nodes := nodes b @ [(n, length (nodes b))]\<rparr>)) c = Some j \<and> j < i"
      proof cases
        case 1
        then show ?thesis using old [OF 1 c] keep by auto
      next
        case 2
        then have "c \<in> keys b" using cs c by auto
        then show ?thesis using look [of c] keep 2 by auto
      qed
    qed
  qed
qed

lemma add_node_present: "n \<in> keys b \<Longrightarrow> add_node n b = b"
  by (cases n) (simp add: keys_def)

lemma fold_add_node_present: "set cs \<subseteq> keys b \<Longrightarrow> fold add_node cs b = b"
  by (induction cs) (simp_all add: add_node_present)

lemma update_append_absent:
  "k \<notin> set (map fst al) \<Longrightarrow> AList.update k v (al @ xs) = al @ AList.update k v xs"
  by (induction al) auto

lemma add_node_extends: "extends b (add_node n b) \<and> n \<in> keys (add_node n b)"
proof (induction n b rule: add_node.induct)
  case (1 i k cs self)
  show ?case
  proof (cases "BMGNode i k cs \<in> set (map fst (nodes self))")
    case True
    then show ?thesis by (simp add: extends_refl keys_def)
  next
    case False
    have "extends b (fold add_node cs' b)" if "set cs' \<subseteq> set cs" for cs' b
      using that
    proof (induction cs' arbitrary: b)
      case Nil
      then show ?case by (simp add: extends_refl)
    next
      case (Cons a cs')
      then show ?case
        using 1 [OF False, of a b] extends_trans by auto
    qed
    then have "extends self (fold add_node cs self)" by simp
    then show ?thesis
      using False
      by (auto simp: Let_def keys_def keys_update extends_def update_append_absent
          simp del: set_map)
  qed
qed


lemma fold_add_node_extends: "extends b (fold add_node cs b)"
proof (induction cs arbitrary: b)
  case Nil
  then show ?case by (simp add: extends_refl)
next
  case (Cons a cs)
  have "extends b (add_node a b)"
    using add_node_extends by blast
  moreover have "extends (add_node a b) (fold add_node cs (add_node a b))"
    using Cons.IH .
  ultimately show ?case
    using extends_trans by simp
qed

lemma fold_add_node_children: "set cs \<subseteq> keys (fold add_node cs b)"
proof (induction cs arbitrary: b)
  case Nil
  then show ?case by simp
next
  case (Cons a cs)
  have "a \<in> keys (add_node a b)"
    using add_node_extends by blast
  then have "a \<in> keys (fold add_node cs (add_node a b))"
    using extends_keys [OF fold_add_node_extends [of "add_node a b" cs]] by blast
  then show ?case
    using Cons.IH [of "add_node a b"] by simp
qed

lemma fresh_after_children:
  assumes "n \<notin> keys b"
  shows "n \<notin> keys (fold add_node (children n) b)"
proof (cases n)
  case (BMGNode i k cs)
  have "keys (fold add_node cs b) \<subseteq> keys b \<union> {m. \<exists>c \<in> set cs. size m \<le> size c}"
    by (rule fold_keys_bound) (rule add_node_keys_bound)
  moreover have "\<not> (\<exists>c \<in> set cs. size n \<le> size c)"
    using child_size [of _ cs i k] BMGNode by (simp add: not_le)
  ultimately show ?thesis
    using assms BMGNode by auto
qed

lemma add_node_new:
  assumes "n \<notin> keys b"
  shows "nodes (add_node n b)
           = nodes (fold add_node (children n) b)
             @ [(n, length (nodes (fold add_node (children n) b)))]"
proof (cases n)
  case (BMGNode i k cs)
  have "n \<notin> set (map fst (nodes (fold add_node cs b)))"
    using fresh_after_children [OF assms] BMGNode by (simp add: keys_def)
  then show ?thesis
    using assms BMGNode by (simp add: Let_def keys_def update_absent del: set_map)
qed

lemma builder_inv_nodes: "nodes a = nodes b \<Longrightarrow> builder_inv a = builder_inv b"
  by (simp add: builder_inv_def children_precede_def)

lemma fold_preserves_inv:
  assumes "\<And>c b. c \<in> set cs \<Longrightarrow> builder_inv b \<Longrightarrow> builder_inv (add_node c b)"
    and "builder_inv b"
  shows "builder_inv (fold add_node cs b)"
  using assms by (induction cs arbitrary: b) simp_all

lemma add_node_inv: "builder_inv b \<Longrightarrow> builder_inv (add_node n b)"
proof (induction n b rule: add_node.induct)
  case (1 i k cs self)
  let ?n = "BMGNode i k cs"
  let ?b = "fold add_node cs self"
  show ?case
  proof (cases "?n \<in> keys self")
    case True
    then show ?thesis
      using "1.prems" by (simp only: add_node_present)
  next
    case False
    then have absent: "?n \<notin> set (map fst (nodes self))"
      by (simp add: keys_def)
    have inv: "builder_inv ?b"
    proof (rule fold_preserves_inv)
      show "builder_inv self" by (rule "1.prems")
    next
      fix c b assume "c \<in> set cs" "builder_inv b"
      then show "builder_inv (add_node c b)"
        by (rule "1.IH" [OF absent])
    qed
    have new: "?n \<notin> keys ?b"
      using fresh_after_children [OF False] by simp
    have cs: "set (children ?n) \<subseteq> keys ?b"
      using fold_add_node_children [of cs self] by simp
    have "builder_inv (?b\<lparr>nodes := nodes ?b @ [(?n, length (nodes ?b))]\<rparr>)"
      by (rule builder_inv_append [OF inv new cs])
    moreover have "nodes (add_node ?n self)
                     = nodes (?b\<lparr>nodes := nodes ?b @ [(?n, length (nodes ?b))]\<rparr>)"
      using add_node_new [OF False] by simp
    ultimately show ?thesis
      using builder_inv_nodes by blast
  qed
qed

lemma builder_inv_init: "builder_inv BMGraphBuilder_init"
  by (simp add: builder_inv_def BMGraphBuilder_init_def children_precede_def)

lemma fold_builder_inv: "builder_inv b \<Longrightarrow> builder_inv (fold add_node ns b)"
  by (induction ns arbitrary: b) (simp_all add: add_node_inv)

text \<open>
  C9. In every builder reached from the empty one by calls of \<^verbatim>\<open>add_node\<close> (every
  factory method adds its node by that call), each child of a node of the map is in the
  map with an index strictly smaller than the node's: \<^verbatim>\<open>add_node\<close> adds the children
  that are not yet there before it gives the parent the next index.
\<close>

theorem children_precede_parents:
  "children_precede (fold add_node ns BMGraphBuilder_init)"
  using fold_builder_inv [OF builder_inv_init] by (simp add: builder_inv_def)


theorem children_precede_parents_witness:
  "nodes (fold add_node
            [BMGNode 2 AdditionNode [BMGNode 0 (RealNode 1) [], BMGNode 1 (RealNode 2) []]]
            BMGraphBuilder_init)
     = [(BMGNode 0 (RealNode 1) [], 0), (BMGNode 1 (RealNode 2) [], 1),
        (BMGNode 2 AdditionNode [BMGNode 0 (RealNode 1) [], BMGNode 1 (RealNode 2) []], 2)]
   \<and> children_precede (fold add_node
         [BMGNode 2 AdditionNode [BMGNode 0 (RealNode 1) [], BMGNode 1 (RealNode 2) []]]
         BMGraphBuilder_init)"
  using children_precede_parents
    [of "[BMGNode 2 AdditionNode [BMGNode 0 (RealNode 1) [], BMGNode 1 (RealNode 2) []]]"]
  by (simp add: BMGraphBuilder_init_def Let_def)

lemma add_node_twice: "add_node n (add_node n self) = add_node n self"
  using add_node_extends [of self n] by (simp add: add_node_present)

lemma constructed_twice:
  fixes c k cs b
  defines "n1 \<equiv> BMGNode c k cs" and "n2 \<equiv> BMGNode (Suc c) k cs"
  defines "bf \<equiv> fold add_node cs b"
  assumes "idents_below (c, b)"
  shows "nodes (add_node n2 (add_node n1 b))
           = nodes bf @ [(n1, length (nodes bf)), (n2, Suc (length (nodes bf)))]"
proof -
  have fresh: "\<And>m. m \<in> keys b \<Longrightarrow> ident m < c"
    using assms(4) by (auto simp: idents_below_def keys_def)
  have n1: "n1 \<notin> keys b"
    using fresh [of n1] by (auto simp: n1_def)
  have n2: "n2 \<notin> keys b"
    using fresh [of n2] by (auto simp: n2_def)
  have b1: "nodes (add_node n1 b) = nodes bf @ [(n1, length (nodes bf))]"
    using add_node_new [OF n1] by (simp add: n1_def bf_def)
  have "keys bf \<subseteq> keys b \<union> {m. \<exists>x \<in> set cs. size m \<le> size x}"
    unfolding bf_def by (rule fold_keys_bound) (rule add_node_keys_bound)
  then have "n2 \<notin> keys bf"
    using n2 child_size [of _ cs "Suc c" k] by (fastforce simp: n2_def)
  then have n2': "n2 \<notin> keys (add_node n1 b)"
    using b1 by (auto simp: keys_def n1_def n2_def)
  have "set cs \<subseteq> keys bf"
    unfolding bf_def by (rule fold_add_node_children)
  then have "set cs \<subseteq> keys (add_node n1 b)"
    using b1 by (auto simp: keys_def)
  then have same: "fold add_node cs (add_node n1 b) = add_node n1 b"
    by (rule fold_add_node_present)
  show ?thesis
    using add_node_new [OF n2'] same b1 by (simp add: n2_def)
qed

declare add_node.simps [simp del]

text \<open>
  C5. The claim: a factory called twice with equal values, or twice with the identical
  operands, returns the same node both times and inserts one node. The builder has no
  table of structural keys: each factory call constructs a new node object, nodes are
  dictionary keys by identity, and \<^verbatim>\<open>add_node\<close> finds the second object absent.
  As amended: what is shared is a node object added twice (\<^verbatim>\<open>add_node\<close> of a node
  that is in the map changes nothing, third conjunct); two calls of a factory with
  equal arguments return two distinct nodes and append both to the map after the
  children. The hypothesis says that the objects in the map were constructed before the
  next one.
\<close>

theorem factory_twice_inserts_two_nodes:
  assumes "idents_below w"
  shows "fst (add_constructed k cs w)
           \<noteq> fst (add_constructed k cs (snd (add_constructed k cs w)))
         \<and> nodes (snd (snd (add_constructed k cs (snd (add_constructed k cs w)))))
           = nodes (fold add_node cs (snd w))
             @ [(fst (add_constructed k cs w), length (nodes (fold add_node cs (snd w)))),
                (fst (add_constructed k cs (snd (add_constructed k cs w))),
                 Suc (length (nodes (fold add_node cs (snd w)))))]
         \<and> add_node n (add_node n self) = add_node n self"
proof -
  obtain c b where w: "w = (c, b)" by (cases w)
  have r1: "add_constructed k cs (c, b)
              = (BMGNode c k cs, (Suc c, add_node (BMGNode c k cs) b))"
    by (simp add: add_constructed_def construct_def)
  have r2: "add_constructed k cs (Suc c, add_node (BMGNode c k cs) b)
              = (BMGNode (Suc c) k cs,
                 (Suc (Suc c), add_node (BMGNode (Suc c) k cs) (add_node (BMGNode c k cs) b)))"
    by (simp add: add_constructed_def construct_def)
  have "idents_below (c, b)"
    using assms w by simp
  then show ?thesis
    using constructed_twice [of c b k cs]
    by (simp add: w r1 r2 add_node_twice)
qed

theorem factory_twice_inserts_two_nodes_witness:
  "idents_below (0, BMGraphBuilder_init)
   \<and> nodes (snd (snd (add_real 3 (snd (add_real 3 (0, BMGraphBuilder_init))))))
     = [(BMGNode 0 (RealNode 3) [], 0), (BMGNode 1 (RealNode 3) [], 1)]"
  using factory_twice_inserts_two_nodes [of "(0, BMGraphBuilder_init)" "RealNode 3" "[]"]
  by (simp add: idents_below_def BMGraphBuilder_init_def add_real_def add_constructed_def
      construct_def add_node.simps)

text \<open>
  C5, the claim refuted at \<^verbatim>\<open>add_real(3.0)\<close> twice on the empty builder, and at
  \<^verbatim>\<open>add_addition(x, x)\<close> twice on a builder that holds \<open>x\<close>: two nodes come back
  and the map grows by two.
\<close>

theorem add_real_twice_counterexample:
  "fst (add_real 3 (0, BMGraphBuilder_init))
     \<noteq> fst (add_real 3 (snd (add_real 3 (0, BMGraphBuilder_init))))
   \<and> length (nodes (snd (snd (add_real 3 (snd (add_real 3 (0, BMGraphBuilder_init))))))) = 2
   \<and> fst (add_addition (BMGNode 0 (RealNode 3) []) (BMGNode 0 (RealNode 3) [])
            (1, \<lparr>nodes = [(BMGNode 0 (RealNode 3) [], 0)]\<rparr>))
     \<noteq> fst (add_addition (BMGNode 0 (RealNode 3) []) (BMGNode 0 (RealNode 3) [])
              (snd (add_addition (BMGNode 0 (RealNode 3) []) (BMGNode 0 (RealNode 3) [])
                     (1, \<lparr>nodes = [(BMGNode 0 (RealNode 3) [], 0)]\<rparr>))))
   \<and> length (nodes (snd (snd
        (add_addition (BMGNode 0 (RealNode 3) []) (BMGNode 0 (RealNode 3) [])
           (snd (add_addition (BMGNode 0 (RealNode 3) []) (BMGNode 0 (RealNode 3) [])
                  (1, \<lparr>nodes = [(BMGNode 0 (RealNode 3) [], 0)]\<rparr>))))))) = 3"
  by (simp add: BMGraphBuilder_init_def add_real_def add_addition_def add_constructed_def
      construct_def Let_def add_node.simps)

section \<open>Properties of the requirements fixer\<close>


lemmas lattice_eval =
  node_meets_requirement_def type_meets_requirement_def meets_requirement_def
  u_supremum_def supremum_def scalar_defs

lemmas builder_eval =
  add_constant_of_type_def add_constant_of_matrix_type_def add_operator_def
  add_if_then_else_def add_to_real_c_def add_to_positive_real_def add_to_probability_def
  intern_def class_of_def node_of_def RequirementsFixer_init_def

subsection \<open>Constants\<close>




subsection \<open>A requirement of the exact type tensor\<close>

text \<open>
  C4. An operator node that does not meet the requirement \<open>Exact Tensor\<close> and whose
  infimum type meets its upper bound reaches \<^verbatim>\<open>_convert_node\<close> with the lattice type
  \<^verbatim>\<open>bt.Tensor\<close>. Unless the node is a malformed multiplication or power, the method
  does not raise \<^verbatim>\<open>ValueError("Unsupported type requirement: Tensor")\<close>: the
  comparison on line 241 is with the class \<^verbatim>\<open>torch.Tensor\<close> and is false, the
  comparisons with \<^verbatim>\<open>bt.Real\<close> and \<^verbatim>\<open>bt.PositiveReal\<close> are false, and the assertion
  that the requirement is natural or probability fails. The fixer stops with an
  \<^verbatim>\<open>AssertionError\<close>.
\<close>

theorem tensor_requirement_assertion_error:
  assumes "class_of self node \<noteq> bn_MultiplicationNode \<or> graph_type M node \<noteq> Malformed"
      and "class_of self node \<noteq> bn_PowerNode \<or> graph_type M node \<noteq> Malformed"
      and "\<not> node_meets_requirement M node (Exact Tensor)"
      and "type_meets_requirement (inf_type M node) (upper_bound (Exact Tensor))"
  shows "u_meet_operator_requirement M node (Exact Tensor) consumer edge self
           = Inl AssertionError
         \<and> u_convert_node M node Tensor consumer edge self = Inl AssertionError
         \<and> u_convert_node M node Tensor consumer edge self
             \<noteq> Inl (ValueError ''Unsupported type requirement: Tensor'')"
proof -
  have neq: "graph_type M node \<noteq> Tensor"
    using assms(3)
    by (auto simp: node_meets_requirement_def type_meets_requirement_def
        meets_requirement_def)
  have conv: "u_convert_node M node Tensor consumer edge self = Inl AssertionError"
    using assms(1,2) neq
    by (auto simp: u_convert_node.simps scalar_defs)
  show ?thesis
    using assms(3,4) conv
    by (simp add: u_meet_operator_requirement.simps Let_def)
qed

theorem tensor_requirement_assertion_error_witness:
  "u_meet_operator_requirement (product_model Natural) 1 (Exact Tensor) 2 ''right''
       (RequirementsFixer_init product_graph)
     = Inl AssertionError
   \<and> meet_requirement (product_model Natural) 1 (Exact Tensor) 2 ''right''
       (RequirementsFixer_init product_graph)
     = Inl AssertionError"
  using tensor_requirement_assertion_error
          [where self = "RequirementsFixer_init product_graph" and node = 1
             and M = "product_model Natural" and consumer = 2 and edge = "''right''"]
  by (simp add: product_model_def product_model_of_def product_graph_def lattice_eval builder_eval
      meet_requirement.simps isinstance_OperatorNode_def)

subsection \<open>Malformed multiplications\<close>




subsection \<open>What a call does to the graph\<close>

lemma grows_refl: "grows s s"
  by (simp add: grows_def)

lemma grows_trans: "grows a b \<Longrightarrow> grows b c \<Longrightarrow> grows a c"
  by (auto simp: grows_def)

lemma grows_valid: "grows s s' \<Longrightarrow> valid s h \<Longrightarrow> valid s' h"
  by (auto simp: grows_def valid_def)

lemma grows_node_of: "grows s s' \<Longrightarrow> valid s h \<Longrightarrow> node_of s' h = node_of s h"
  by (auto simp: grows_def valid_def node_of_def nth_append)

lemma closed_arena_append:
  "closed_arena ns \<Longrightarrow> \<forall>h \<in> set (inputs n). h < length ns \<Longrightarrow> closed_arena (ns @ [n])"
  by (auto simp: closed_arena_def less_Suc_eq)

lemma intern_step:
  assumes "intern n (bmg s) = (h, b')"
  shows "grows s (s\<lparr>bmg := b'\<rparr>) \<and> valid (s\<lparr>bmg := b'\<rparr>) h
         \<and> (graph_inv s \<longrightarrow> (\<forall>x \<in> set (inputs n). valid s x) \<longrightarrow> graph_inv (s\<lparr>bmg := b'\<rparr>))"
proof (cases "index_of n (arena (bmg s))")
  case None
  then have b': "b' = (bmg s)\<lparr>arena := arena (bmg s) @ [n]\<rparr>" and h: "h = length (arena (bmg s))"
    using assms by (simp_all add: intern_def)
  show ?thesis
    using closed_arena_append [of "arena (bmg s)" n]
    by (auto simp: b' h grows_def valid_def graph_inv_def)
next
  case (Some a)
  then have "b' = bmg s" "h = a"
    using assms by (simp_all add: intern_def)
  then show ?thesis
    using index_of_Some [OF Some] by (simp add: grows_def valid_def)
qed

lemma add_constant_step:
  assumes "add_constant_of_type v t (bmg s) = (h, b')"
  shows "grows s (s\<lparr>bmg := b'\<rparr>) \<and> valid (s\<lparr>bmg := b'\<rparr>) h
         \<and> (graph_inv s \<longrightarrow> graph_inv (s\<lparr>bmg := b'\<rparr>))"
  using intern_step [of _ s h b'] assms by (simp add: add_constant_of_type_def)

lemma add_constant_matrix_step:
  assumes "add_constant_of_matrix_type v t (bmg s) = (h, b')"
  shows "grows s (s\<lparr>bmg := b'\<rparr>) \<and> valid (s\<lparr>bmg := b'\<rparr>) h
         \<and> (graph_inv s \<longrightarrow> graph_inv (s\<lparr>bmg := b'\<rparr>))"
  using intern_step [of _ s h b'] assms by (simp add: add_constant_of_matrix_type_def)

lemma add_operator_step:
  assumes "add_operator k ins (bmg s) = (h, b')"
  shows "grows s (s\<lparr>bmg := b'\<rparr>) \<and> valid (s\<lparr>bmg := b'\<rparr>) h
         \<and> (graph_inv s \<longrightarrow> (\<forall>x \<in> set ins. valid s x) \<longrightarrow> graph_inv (s\<lparr>bmg := b'\<rparr>))"
  using intern_step [of _ s h b'] assms by (simp add: add_operator_def)

lemma inputs_valid:
  "graph_inv s \<Longrightarrow> valid s node \<Longrightarrow> i < length (inputs (node_of s node)) \<Longrightarrow>
     valid s (inputs (node_of s node) ! i)"
proof -
  assume a: "graph_inv s" "valid s node" "i < length (inputs (node_of s node))"
  have "node_of s node \<in> set (arena (bmg s))"
    using a(2) by (simp add: valid_def node_of_def)
  moreover have "inputs (node_of s node) ! i \<in> set (inputs (node_of s node))"
    using a(3) by simp
  ultimately show ?thesis
    using a(1) by (auto simp: graph_inv_def closed_arena_def valid_def)
qed


lemma rewrite_step:
  assumes z: "add_constant_of_type v t (bmg self) = (z, b)"
      and i: "add_if_then_else c a z b = (ite, b')"
      and IH: "step_ok (self\<lparr>bmg := b'\<rparr>) ite res"
      and res: "res = Inr (r, s')"
      and ops: "graph_inv self \<Longrightarrow> valid self node \<Longrightarrow> valid self c \<and> valid self a"
  shows "grows self s' \<and> (graph_inv self \<longrightarrow> valid self node \<longrightarrow> graph_inv s' \<and> valid s' r)"
proof -
  let ?s1 = "self\<lparr>bmg := b\<rparr>" and ?s2 = "self\<lparr>bmg := b'\<rparr>"
  have s1: "grows self ?s1" "valid ?s1 z" "graph_inv self \<longrightarrow> graph_inv ?s1"
    using add_constant_step [OF z] by simp_all
  have i': "add_operator bn_IfThenElseNode [c, a, z] (bmg ?s1) = (ite, b')"
    using i by (simp add: add_if_then_else_def)
  have s2: "grows ?s1 ?s2" "valid ?s2 ite"
           "graph_inv ?s1 \<longrightarrow> (\<forall>x \<in> set [c, a, z]. valid ?s1 x) \<longrightarrow> graph_inv ?s2"
    using add_operator_step [OF i'] by simp_all
  have s3: "grows ?s2 s'" "graph_inv ?s2 \<longrightarrow> valid ?s2 ite \<longrightarrow> graph_inv s' \<and> valid s' r"
    using IH res by (simp_all add: step_ok_def)
  have "grows self s'"
    using s1(1) s2(1) s3(1) grows_trans by blast
  moreover have "graph_inv s' \<and> valid s' r" if "graph_inv self" "valid self node"
  proof -
    have "valid ?s1 c" "valid ?s1 a"
      using ops [OF that] grows_valid [OF s1(1)] by simp_all
    then have "graph_inv ?s2"
      using s1 s2 that by simp
    then show ?thesis
      using s3(2) s2(2) by simp
  qed
  ultimately show ?thesis by simp
qed

lemma wrap_step:
  assumes a: "add_operator k ins (bmg self) = (h, b)"
      and ins: "graph_inv self \<Longrightarrow> valid self node \<Longrightarrow> \<forall>x \<in> set ins. valid self x"
  shows "grows self (self\<lparr>bmg := b\<rparr>)
         \<and> (graph_inv self \<longrightarrow> valid self node \<longrightarrow>
              graph_inv (self\<lparr>bmg := b\<rparr>) \<and> valid (self\<lparr>bmg := b\<rparr>) h)"
  using add_operator_step [OF a] ins by blast

lemma boolean_conversion_step:
  assumes z: "add_constant_of_type v t (bmg self) = (z, b)"
      and o: "add_constant_of_type v' t' b = (one, b')"
      and i: "add_if_then_else node one z b' = (ite, b'')"
  shows "grows self (self\<lparr>bmg := b''\<rparr>)
         \<and> (graph_inv self \<longrightarrow> valid self node \<longrightarrow>
              graph_inv (self\<lparr>bmg := b''\<rparr>) \<and> valid (self\<lparr>bmg := b''\<rparr>) ite)"
proof -
  let ?s1 = "self\<lparr>bmg := b\<rparr>" and ?s2 = "self\<lparr>bmg := b'\<rparr>" and ?s3 = "self\<lparr>bmg := b''\<rparr>"
  have s1: "grows self ?s1" "valid ?s1 z" "graph_inv self \<longrightarrow> graph_inv ?s1"
    using add_constant_step [OF z] by simp_all
  have o': "add_constant_of_type v' t' (bmg ?s1) = (one, b')"
    using o by simp
  have s2: "grows ?s1 ?s2" "valid ?s2 one" "graph_inv ?s1 \<longrightarrow> graph_inv ?s2"
    using add_constant_step [OF o'] by simp_all
  have i': "add_operator bn_IfThenElseNode [node, one, z] (bmg ?s2) = (ite, b'')"
    using i by (simp add: add_if_then_else_def)
  have s3: "grows ?s2 ?s3" "valid ?s3 ite"
           "graph_inv ?s2 \<longrightarrow> (\<forall>x \<in> set [node, one, z]. valid ?s2 x) \<longrightarrow> graph_inv ?s3"
    using add_operator_step [OF i'] by simp_all
  have g: "grows self ?s3"
    using s1(1) s2(1) s3(1) grows_trans by blast
  moreover have "graph_inv ?s3" if "graph_inv self" "valid self node"
  proof -
    have "valid ?s2 node" "valid ?s2 z"
      using that(2) s1(1,2) s2(1) grows_valid grows_trans by blast+
    then show ?thesis
      using s1(3) s2(2,3) s3(3) that(1) by simp
  qed
  ultimately show ?thesis
    using s3(2) by simp
qed

lemma meet_constant_step:
  "step_ok self node (u_meet_constant_requirement M node rq consumer edge self)"
  unfolding step_ok_def
proof (intro allI impI)
  fix r s'
  assume res: "u_meet_constant_requirement M node rq consumer edge self = Inr (r, s')"
  let ?v = "cvalue (node_of self node)" and ?t = "requirement_to_type rq"
  have vstep: "grows self (self\<lparr>errors := errors self @ [v]\<rparr>)
              \<and> (graph_inv self \<longrightarrow> graph_inv (self\<lparr>errors := errors self @ [v]\<rparr>))
              \<and> (valid self node \<longrightarrow> valid (self\<lparr>errors := errors self @ [v]\<rparr>) node)" for v
    by (simp add: grows_def graph_inv_def valid_def)
  obtain h1 b1 where k1: "add_constant_of_type ?v ?t (bmg self) = (h1, b1)"
    by (cases "add_constant_of_type ?v ?t (bmg self)")
  obtain h2 b2 where k2: "add_constant_of_matrix_type ?v ?t (bmg self) = (h2, b2)"
    by (cases "add_constant_of_matrix_type ?v ?t (bmg self)")
  from res consider
      (same) "r = node" "s' = self"
    | (c1) "r = h1" "s' = self\<lparr>bmg := b1\<rparr>"
    | (c2) "r = h2" "s' = self\<lparr>bmg := b2\<rparr>"
    | (viol) "r = node" "s' = self\<lparr>errors := errors self @ [Violation node rq consumer edge]\<rparr>"
    using k1 k2
    by (auto simp: u_meet_constant_requirement_def Let_def split: if_splits)
  then show "grows self s' \<and> (graph_inv self \<longrightarrow> valid self node \<longrightarrow> graph_inv s' \<and> valid s' r)"
  proof cases
    case same
    then show ?thesis by (simp add: grows_refl)
  next
    case c1
    then show ?thesis using add_constant_step [OF k1]
      by simp
  next
    case c2
    then show ?thesis using add_constant_matrix_step [OF k2]
      by simp
  next
    case viol
    then show ?thesis using vstep [of "Violation node rq consumer edge"] by simp
  qed
qed

lemma steps_ok:
  "step_ok self node (u_convert_malformed_multiplication M node t consumer edge self)"
  "step_ok self node (u_convert_malformed_power M node t consumer edge self)"
  "step_ok self node (u_convert_node M node t consumer edge self)"
  "step_ok self node (u_meet_operator_requirement M node rq consumer edge self)"
  "step_ok self node (meet_requirement M node rq consumer edge self)"
proof (induction M node t consumer edge self and M node t consumer edge self
         and M node t consumer edge self and M node rq consumer edge self
         and M node rq consumer edge self
       rule: u_convert_malformed_multiplication_u_convert_malformed_power_u_convert_node_u_meet_operator_requirement_meet_requirement.induct)
  case (1 M node requirement consumer edge self)
  let ?left = "inputs (node_of self node) ! 0" and ?right = "inputs (node_of self node) ! 1"
  show ?case
    unfolding step_ok_def
  proof (intro allI impI)
    fix r s'
    assume res: "u_convert_malformed_multiplication M node requirement consumer edge self
                   = Inr (r, s')"
    have pre: "graph_type M node = Malformed"
              "supremum [inf_type M node, requirement] = requirement"
              "\<not> length (inputs (node_of self node)) < 2"
              "graph_type M ?left \<noteq> Malformed" "graph_type M ?right \<noteq> Malformed"
              "graph_type M ?left = Boolean \<or> graph_type M ?right = Boolean"
      using res
      by (auto simp: u_convert_malformed_multiplication.simps [of M node] Let_def
          split: if_splits)
    have ops: "valid self ?left \<and> valid self ?right" if "graph_inv self" "valid self node"
    proof -
      have "0 < length (inputs (node_of self node))" "1 < length (inputs (node_of self node))"
        using pre(3) by linarith+
      then show ?thesis
        using inputs_valid [OF that] by blast
    qed
    show "grows self s' \<and> (graph_inv self \<longrightarrow> valid self node \<longrightarrow> graph_inv s' \<and> valid s' r)"
    proof (cases "graph_type M ?left = Boolean")
      case True
      obtain z b where z: "add_constant_of_type (PyFloat (Finite 0)) (graph_type M ?right) (bmg self) = (z, b)"
        by (cases "add_constant_of_type (PyFloat (Finite 0)) (graph_type M ?right) (bmg self)")
      obtain ite b' where i: "add_if_then_else ?left ?right z b = (ite, b')"
        by (cases "add_if_then_else ?left ?right z b")
      have g: "graph_type M ite = graph_type M ?right"
       and rec: "meet_requirement M ite (Exact requirement) consumer edge (self\<lparr>bmg := b'\<rparr>)
                   = Inr (r, s')"
        using res pre True z i
        by (auto simp: u_convert_malformed_multiplication.simps [of M node] Let_def
            split: if_splits)
      have IH: "step_ok (self\<lparr>bmg := b'\<rparr>) ite
                  (meet_requirement M ite (Exact requirement) consumer edge (self\<lparr>bmg := b'\<rparr>))"
        using "1.IH"(1) [of ?left ?right "graph_type M ?left" "graph_type M ?right" z b ite b']
          pre True z i g
        by simp
      show ?thesis
        using rewrite_step [OF z i IH rec] ops by blast
    next
      case False
      obtain z b where z: "add_constant_of_type (PyFloat (Finite 0)) (graph_type M ?left) (bmg self) = (z, b)"
        by (cases "add_constant_of_type (PyFloat (Finite 0)) (graph_type M ?left) (bmg self)")
      obtain ite b' where i: "add_if_then_else ?right ?left z b = (ite, b')"
        by (cases "add_if_then_else ?right ?left z b")
      have g: "graph_type M ite = graph_type M ?left"
       and rec: "meet_requirement M ite (Exact requirement) consumer edge (self\<lparr>bmg := b'\<rparr>)
                   = Inr (r, s')"
        using res pre False z i
        by (auto simp: u_convert_malformed_multiplication.simps [of M node] Let_def
            split: if_splits)
      have IH: "step_ok (self\<lparr>bmg := b'\<rparr>) ite
                  (meet_requirement M ite (Exact requirement) consumer edge (self\<lparr>bmg := b'\<rparr>))"
        using "1.IH"(2) [of ?left ?right "graph_type M ?left" "graph_type M ?right" z b ite b']
          pre False z i g
        by simp
      show ?thesis
        using rewrite_step [OF z i IH rec] ops by blast
    qed
  qed
next
  case (2 M node requirement consumer edge self)
  let ?left = "inputs (node_of self node) ! 0" and ?right = "inputs (node_of self node) ! 1"
  show ?case
    unfolding step_ok_def
  proof (intro allI impI)
    fix r s'
    assume res: "u_convert_malformed_power M node requirement consumer edge self = Inr (r, s')"
    have pre: "graph_type M node = Malformed"
              "supremum [inf_type M node, requirement] = requirement"
              "\<not> length (inputs (node_of self node)) < 2"
              "graph_type M ?left \<noteq> Malformed" "graph_type M ?right = Boolean"
      using res
      by (auto simp: u_convert_malformed_power.simps [of M node] Let_def split: if_splits)
    have ops: "valid self ?right \<and> valid self ?left" if "graph_inv self" "valid self node"
    proof -
      have "0 < length (inputs (node_of self node))" "1 < length (inputs (node_of self node))"
        using pre(3) by linarith+
      then show ?thesis
        using inputs_valid [OF that] by blast
    qed
    obtain z b where z: "add_constant_of_type (PyFloat (Finite 1)) (graph_type M ?left) (bmg self) = (z, b)"
      by (cases "add_constant_of_type (PyFloat (Finite 1)) (graph_type M ?left) (bmg self)")
    obtain ite b' where i: "add_if_then_else ?right ?left z b = (ite, b')"
      by (cases "add_if_then_else ?right ?left z b")
    have g: "graph_type M ite = graph_type M ?left"
     and rec: "meet_requirement M ite (Exact requirement) consumer edge (self\<lparr>bmg := b'\<rparr>)
                 = Inr (r, s')"
      using res pre z i
      by (auto simp: u_convert_malformed_power.simps [of M node] Let_def split: if_splits)
    have IH: "step_ok (self\<lparr>bmg := b'\<rparr>) ite
                (meet_requirement M ite (Exact requirement) consumer edge (self\<lparr>bmg := b'\<rparr>))"
      using "2.IH" [of ?left ?right "graph_type M ?left" "graph_type M ?right" z b ite b']
        pre z i g
      by simp
    show "grows self s' \<and> (graph_inv self \<longrightarrow> valid self node \<longrightarrow> graph_inv s' \<and> valid s' r)"
      using rewrite_step [OF z i IH rec] ops by blast
  qed
next
  case (3 M node requirement consumer edge self)
  show ?case
    unfolding step_ok_def
  proof (intro allI impI)
    fix r s'
    assume res: "u_convert_node M node requirement consumer edge self = Inr (r, s')"
    have pre: "graph_type M node \<noteq> requirement"
              "supremum [inf_type M node, requirement] = requirement"
      using res by (auto simp: u_convert_node.simps [of M node] split: if_splits)
    let ?goal = "grows self s' \<and> (graph_inv self \<longrightarrow> valid self node \<longrightarrow> graph_inv s' \<and> valid s' r)"
    consider
        (mul) "class_of self node = bn_MultiplicationNode \<and> graph_type M node = Malformed"
      | (pow) "\<not> (class_of self node = bn_MultiplicationNode \<and> graph_type M node = Malformed)"
              "class_of self node = bn_PowerNode \<and> graph_type M node = Malformed"
      | (other) "\<not> (class_of self node = bn_MultiplicationNode \<and> graph_type M node = Malformed)"
                "\<not> (class_of self node = bn_PowerNode \<and> graph_type M node = Malformed)"
      by blast
    then show ?goal
    proof cases
      case mul
      then have "u_convert_malformed_multiplication M node requirement consumer edge self
                   = Inr (r, s')"
        using res pre by (simp add: u_convert_node.simps [of M node])
      then show ?thesis
        using "3.IH"(1) pre mul by (simp add: step_ok_def)
    next
      case pow
      then have "u_convert_malformed_power M node requirement consumer edge self = Inr (r, s')"
        using res pre by (simp add: u_convert_node.simps [of M node])
      then show ?thesis
        using "3.IH"(2) pre pow by (simp add: step_ok_def)
    next
      case other
      obtain h1 b1 where r1: "add_operator bn_ToRealNode [node] (bmg self) = (h1, b1)"
        by (cases "add_operator bn_ToRealNode [node] (bmg self)")
      obtain h2 b2 where r2: "add_operator bn_ToPositiveRealNode [node] (bmg self) = (h2, b2)"
        by (cases "add_operator bn_ToPositiveRealNode [node] (bmg self)")
      obtain z b where z: "add_constant_of_type (PyFloat (Finite 0)) requirement (bmg self) = (z, b)"
        by (cases "add_constant_of_type (PyFloat (Finite 0)) requirement (bmg self)")
      obtain one b' where o: "add_constant_of_type (PyFloat (Finite 1)) requirement b = (one, b')"
        by (cases "add_constant_of_type (PyFloat (Finite 1)) requirement b")
      obtain ite b'' where i: "add_if_then_else node one z b' = (ite, b'')"
        by (cases "add_if_then_else node one z b'")
      from res consider
          (real) "r = h1" "s' = self\<lparr>bmg := b1\<rparr>"
        | (posreal) "r = h2" "s' = self\<lparr>bmg := b2\<rparr>"
        | (bool) "r = ite" "s' = self\<lparr>bmg := b''\<rparr>"
        using other pre r1 r2 z o i
        by (auto simp: u_convert_node.simps [of M node] add_to_real_c_def
            add_to_positive_real_def split: if_splits)
      then show ?thesis
      proof cases
        case real
        then show ?thesis using wrap_step [OF r1, of node] by simp
      next
        case posreal
        then show ?thesis using wrap_step [OF r2, of node] by simp
      next
        case bool
        then show ?thesis using boolean_conversion_step [OF z o i] by simp
      qed
    qed
  qed
next
  case (4 M node requirement consumer edge self)
  show ?case
    unfolding step_ok_def
  proof (intro allI impI)
    fix r s'
    assume res: "u_meet_operator_requirement M node requirement consumer edge self = Inr (r, s')"
    let ?it = "inf_type M node"
    let ?goal = "grows self s' \<and> (graph_inv self \<longrightarrow> valid self node \<longrightarrow> graph_inv s' \<and> valid s' r)"
    show ?goal
    proof (cases "node_meets_requirement M node requirement")
      case True
      then have "r = node" "s' = self"
        using res by (simp_all add: u_meet_operator_requirement.simps [of M node])
      then show ?thesis by (simp add: grows_refl)
    next
      case nm: False
      show ?thesis
      proof (cases "type_meets_requirement ?it (upper_bound requirement)")
        case tm: False
        show ?thesis
        proof (cases "u_can_force_to_prob ?it requirement")
          case True
          obtain operand s1 where rec: "meet_requirement M node (Exact ?it) consumer edge self
                                          = Inr (operand, s1)"
            using res nm tm True
            by (auto simp: u_meet_operator_requirement.simps [of M node] Let_def
                split: sum.splits)
          obtain h b where p: "add_operator bn_ToProbabilityNode [operand] (bmg s1) = (h, b)"
            by (cases "add_operator bn_ToProbabilityNode [operand] (bmg s1)")
          have out: "r = h" "s' = s1\<lparr>bmg := b\<rparr>"
            using res nm tm True rec p
            by (auto simp: u_meet_operator_requirement.simps [of M node] Let_def
                add_to_probability_def split: if_splits)
          have s1: "grows self s1"
                   "graph_inv self \<longrightarrow> valid self node \<longrightarrow> graph_inv s1 \<and> valid s1 operand"
            using "4.IH"(1) [of ?it] nm tm True rec by (simp_all add: step_ok_def)
          have s2: "grows s1 (s1\<lparr>bmg := b\<rparr>)"
                   "graph_inv s1 \<longrightarrow> valid s1 operand \<longrightarrow>
                      graph_inv (s1\<lparr>bmg := b\<rparr>) \<and> valid (s1\<lparr>bmg := b\<rparr>) h"
            using wrap_step [OF p, of operand] by simp_all
          show ?thesis
            using s1 s2 out grows_trans by blast
        next
          case False
          then have "u_meet_operator_requirement M node requirement consumer edge self
                       = Inr (node, self\<lparr>errors := errors self
                                @ [Violation node requirement consumer edge]\<rparr>)"
            using nm tm
            by (simp add: u_meet_operator_requirement.simps [of M node requirement] Let_def)
          then have "r = node"
                    "s' = self\<lparr>errors := errors self @ [Violation node requirement consumer edge]\<rparr>"
            using res by simp_all
          then show ?thesis
            by (simp add: grows_def graph_inv_def valid_def)
        qed
      next
        case tm: True
        show ?thesis
        proof (cases requirement)
          case (Exact x1)
          then have "u_convert_node M node x1 consumer edge self = Inr (r, s')"
            using res nm tm
            by (auto simp: u_meet_operator_requirement.simps [of M node] Let_def
                split: sum.splits if_splits)
          then show ?thesis
            using "4.IH"(2) [of ?it x1] nm tm Exact by (simp add: step_ok_def)
        next
          case (UpperBound x2)
          then have "u_convert_node M node ?it consumer edge self = Inr (r, s')"
            using res nm tm
            by (auto simp: u_meet_operator_requirement.simps [of M node] Let_def
                split: sum.splits if_splits)
          then show ?thesis
            using "4.IH"(3) [of ?it x2] nm tm UpperBound by (simp add: step_ok_def)
        qed
      qed
    qed
  qed
next
  case (5 M node requirement consumer edge self)
  show ?case
    unfolding step_ok_def
  proof (intro allI impI)
    fix r s'
    assume res: "meet_requirement M node requirement consumer edge self = Inr (r, s')"
    let ?goal = "grows self s' \<and> (graph_inv self \<longrightarrow> valid self node \<longrightarrow> graph_inv s' \<and> valid s' r)"
    have unfold: "meet_requirement M node requirement consumer edge self =
       (if class_of self node = bn_Observation then Inl AssertionError
        else if class_of self node = bn_Query then Inl AssertionError
        else if class_of self node = bn_ConstantNode then
          u_meet_constant_requirement M node requirement consumer edge self
        else if class_of self node = bn_DistributionNode then
          u_meet_distribution_requirement M node requirement consumer edge self
        else if class_of self node = bn_MapNode then
          u_meet_map_requirement M node requirement consumer edge self
        else if isinstance_OperatorNode (class_of self node) then
          u_meet_operator_requirement M node requirement consumer edge self
        else Inl AssertionError)"
      by (rule meet_requirement.simps)
    show ?goal
    proof (cases "class_of self node = bn_ConstantNode")
      case True
      then have "u_meet_constant_requirement M node requirement consumer edge self = Inr (r, s')"
        using res unfolding unfold by simp
      then show ?thesis
        using meet_constant_step [of self node M] by (simp add: step_ok_def)
    next
      case nc: False
      show ?thesis
      proof (cases "class_of self node \<in> {bn_DistributionNode, bn_MapNode}")
        case True
        then have "r = node \<and> s' = self"
          using res nc unfolding unfold
          by (auto simp: u_meet_distribution_requirement_def u_meet_map_requirement_def
              split: if_splits)
        then show ?thesis by (simp add: grows_refl)
      next
        case False
        have cls: "class_of self node \<noteq> bn_Observation" "class_of self node \<noteq> bn_Query"
                  "isinstance_OperatorNode (class_of self node)"
          using res nc False unfolding unfold by (auto split: if_splits)
        then have "u_meet_operator_requirement M node requirement consumer edge self
                     = Inr (r, s')"
          using res nc False unfolding unfold by simp
        moreover have "step_ok self node
                         (u_meet_operator_requirement M node requirement consumer edge self)"
          using "5.IH" cls nc False by simp
        ultimately show ?thesis
          by (simp add: step_ok_def)
      qed
    qed
  qed
qed

subsection \<open>What a call returns\<close>

lemma constant_post:
  "u_meet_constant_requirement M node r consumer edge s = Inr (v, s') \<Longrightarrow>
     meets_requirement (graph_type M v) r
     \<or> (v = node \<and> Violation node r consumer edge \<in> set (errors s'))"
  by (auto simp: u_meet_constant_requirement_def node_meets_requirement_def
      type_meets_requirement_def Let_def split: if_splits prod.splits)

lemma operator_post:
  "u_meet_operator_requirement M node r consumer edge s = Inr (v, s') \<Longrightarrow>
     meets_requirement (graph_type M v) r
     \<or> (v = node \<and> Violation node r consumer edge \<in> set (errors s'))"
  by (auto simp: u_meet_operator_requirement.simps [of M node r consumer edge s]
      node_meets_requirement_def type_meets_requirement_def Let_def
      split: if_splits prod.splits sum.splits)

lemma meet_requirement_post:
  assumes res: "meet_requirement M node r consumer edge s = Inr (v, s')"
  shows "meets_requirement (graph_type M v) r
         \<or> (v = node \<and> Violation node r consumer edge \<in> set (errors s'))
         \<or> (v = node \<and> s' = s \<and> class_of s node \<in> {bn_DistributionNode, bn_MapNode}
             \<and> r = Exact (inf_type M node))"
proof (cases "class_of s node \<in> {bn_DistributionNode, bn_MapNode}")
  case True
  then have "v = node" "s' = s" "r = Exact (inf_type M node)"
    using res
    by (auto simp: meet_requirement.simps [of M node r consumer edge s]
        u_meet_distribution_requirement_def u_meet_map_requirement_def split: if_splits)
  then show ?thesis
    using True by simp
next
  case False
  then consider
      "u_meet_constant_requirement M node r consumer edge s = Inr (v, s')"
    | "u_meet_operator_requirement M node r consumer edge s = Inr (v, s')"
    using res
    by (simp add: meet_requirement.simps [of M node r consumer edge s] split: if_splits)
  then show ?thesis
    using constant_post operator_post by cases blast+
qed

subsection \<open>The loops of the fixer\<close>

lemma set_input_node_of:
  "valid s n \<Longrightarrow>
     node_of (set_input n i v s) h =
       (if h = n then (node_of s n)\<lparr>inputs := (inputs (node_of s n))[i := v]\<rparr> else node_of s h)"
  by (simp add: set_input_def node_of_def valid_def)

lemma set_input_class_of: "valid s n \<Longrightarrow> class_of (set_input n i v s) h = class_of s h"
  by (simp add: class_of_def set_input_node_of)

lemma set_input_frame:
  "errors (set_input n i v s) = errors s"
  "length (arena (bmg (set_input n i v s))) = length (arena (bmg s))"
  by (simp_all add: set_input_def)

lemma set_input_inv:
  assumes inv: "graph_inv s" and n: "valid s n" and v: "valid s v"
  shows "graph_inv (set_input n i v s)"
proof -
  let ?s' = "set_input n i v s"
  have len: "length (arena (bmg ?s')) = length (arena (bmg s))"
    by (rule set_input_frame)
  have "closed_arena (arena (bmg ?s'))"
    unfolding closed_arena_def
  proof (intro ballI)
    fix m x assume m: "m \<in> set (arena (bmg ?s'))" and x: "x \<in> set (inputs m)"
    from m obtain h where h: "h < length (arena (bmg ?s'))" "m = node_of ?s' h"
      by (auto simp: in_set_conv_nth node_of_def)
    have old: "\<forall>y \<in> set (inputs (node_of s h)). y < length (arena (bmg s))"
      using inv h(1) len by (auto simp: graph_inv_def closed_arena_def node_of_def)
    show "x < length (arena (bmg ?s'))"
    proof (cases "h = n")
      case True
      then have "x \<in> set ((inputs (node_of s n))[i := v])"
        using x h(2) set_input_node_of [OF n] by simp
      then have "x = v \<or> x \<in> set (inputs (node_of s n))"
        using set_update_subset_insert by fastforce
      then show ?thesis
        using old True v len by (auto simp: valid_def)
    next
      case False
      then show ?thesis
        using x h(2) old len set_input_node_of [OF n] by simp
    qed
  qed
  then show ?thesis
    by (simp add: graph_inv_def)
qed

lemma edge_fixed_cong:
  assumes "edge_fixed M s n j"
      and "inputs (node_of s' n) ! j = inputs (node_of s n) ! j"
      and "class_of s' (inputs (node_of s n) ! j) = class_of s (inputs (node_of s n) ! j)"
      and "set (errors s) \<subseteq> set (errors s')"
  shows "edge_fixed M s' n j"
  using assms by (auto simp: edge_fixed_def edge_settled_def)

lemma fix_edge_inv:
  assumes res: "fix_edge M n (requirements M n) (get_edge_labels M n) i s = Inr s'"
      and inv: "graph_inv s" and n: "valid s n" and S: "settled M s S"
  shows "graph_inv s' \<and> (\<forall>h. valid s h \<longrightarrow> valid s' h) \<and> settled M s' (insert (n, i) S)"
proof -
  let ?p = "inputs (node_of s n) ! i"
  let ?r = "requirements M n ! i" and ?e = "get_edge_labels M n ! i"
  have i: "i < length (inputs (node_of s n))"
    using res by (auto simp: fix_edge_def split: if_splits)
  obtain v s1 where m: "meet_requirement M ?p ?r n ?e s = Inr (v, s1)"
    and i1: "i < length (inputs (node_of s1 n))" and s': "s' = set_input n i v s1"
    using res by (auto simp: fix_edge_def split: if_splits sum.splits prod.splits)
  have p: "valid s ?p"
    using inputs_valid [OF inv n i] .
  have st: "grows s s1" "graph_inv s1" "valid s1 v"
    using steps_ok(5) [of s ?p M ?r n ?e] m inv p by (simp_all add: step_ok_def)
  have post: "meets_requirement (graph_type M v) ?r
              \<or> (v = ?p \<and> Violation ?p ?r n ?e \<in> set (errors s1))
              \<or> (v = ?p \<and> s1 = s \<and> class_of s ?p \<in> {bn_DistributionNode, bn_MapNode}
                  \<and> ?r = Exact (inf_type M ?p))"
    using meet_requirement_post [OF m] .
  have n1: "valid s1 n"
    using grows_valid [OF st(1) n] .
  have err: "set (errors s) \<subseteq> set (errors s')"
    using st(1) s' by (auto simp: grows_def set_input_frame)
  have cls: "class_of s' h = class_of s h" if "valid s h" for h
    using grows_node_of [OF st(1) that] s' set_input_class_of [OF n1]
    by (simp add: class_of_def)
  have g: "graph_inv s'"
    using set_input_inv [OF st(2) n1 st(3)] s' by simp
  have val: "valid s' h" if "valid s h" for h
    using grows_valid [OF st(1) that] s' by (simp add: valid_def set_input_frame)
  have at: "inputs (node_of s' n) ! i = v"
    using i1 s' set_input_node_of [OF n1, of i v n] by simp
  have v': "valid s' v"
    using st(3) s' by (simp add: valid_def set_input_frame)
  have new: "edge_fixed M s' n i"
  proof -
    consider (meets) "meets_requirement (graph_type M v) ?r"
      | (viol) "v = ?p" "Violation ?p ?r n ?e \<in> set (errors s1)"
      | (dist) "v = ?p" "class_of s ?p \<in> {bn_DistributionNode, bn_MapNode}"
               "?r = Exact (inf_type M ?p)"
      using post by blast
    then show ?thesis
    proof cases
      case meets
      then show ?thesis
        using at by (simp add: edge_fixed_def edge_settled_def)
    next
      case viol
      then show ?thesis
        using at s' by (simp add: edge_fixed_def edge_settled_def set_input_frame)
    next
      case dist
      then show ?thesis
        using at cls [OF p] by (simp add: edge_fixed_def)
    qed
  qed
  have old: "valid s' (inputs (node_of s' n') ! j) \<and> edge_fixed M s' n' j"
    if "(n', j) \<in> S" "(n', j) \<noteq> (n, i)" for n' j
  proof -
    have a: "valid s n'" "valid s (inputs (node_of s n') ! j)" "edge_fixed M s n' j"
      using S that(1) by (auto simp: settled_def)
    have "inputs (node_of s' n') ! j = inputs (node_of s1 n') ! j"
      using that(2) s' set_input_node_of [OF n1, of i v n'] by auto
    then have same: "inputs (node_of s' n') ! j = inputs (node_of s n') ! j"
      using grows_node_of [OF st(1) a(1)] by simp
    show ?thesis
      using edge_fixed_cong [OF a(3) same cls [OF a(2)] err] val [OF a(2)] same by simp
  qed
  have "settled M s' (insert (n, i) S)"
    unfolding settled_def
  proof (intro ballI, clarify)
    fix n' j assume "(n', j) \<in> insert (n, i) S"
    then show "valid s' n' \<and> valid s' (inputs (node_of s' n') ! j) \<and> edge_fixed M s' n' j"
      using new old val n S at v' by (cases "(n', j) = (n, i)") (auto simp: settled_def)
  qed
  then show ?thesis
    using g val by simp
qed

lemma fix_edges_inv:
  assumes "for_each (fix_edge M n (requirements M n) (get_edge_labels M n)) js s = Inr s'"
      and "graph_inv s" and "valid s n" and "settled M s S"
  shows "graph_inv s' \<and> (\<forall>h. valid s h \<longrightarrow> valid s' h)
         \<and> settled M s' (S \<union> {n} \<times> set js)"
  using assms
proof (induction js arbitrary: s S)
  case Nil
  then show ?case by simp
next
  case (Cons j js)
  from Cons.prems(1) obtain s1 where
    e: "fix_edge M n (requirements M n) (get_edge_labels M n) j s = Inr s1"
    and r: "for_each (fix_edge M n (requirements M n) (get_edge_labels M n)) js s1 = Inr s'"
    by (auto split: sum.splits)
  have a: "graph_inv s1" "\<forall>h. valid s h \<longrightarrow> valid s1 h" "settled M s1 (insert (n, j) S)"
    using fix_edge_inv [OF e Cons.prems(2,3,4)] by simp_all
  have b: "graph_inv s'" "\<forall>h. valid s1 h \<longrightarrow> valid s' h"
          "settled M s' (insert (n, j) S \<union> {n} \<times> set js)"
    using Cons.IH [OF r a(1) _ a(3)] a(2) Cons.prems(3) by simp_all
  have "insert (n, j) S \<union> {n} \<times> set js = S \<union> {n} \<times> set (j # js)"
    by auto
  then show ?case
    using a(2) b by simp
qed

lemma fix_node_inv:
  assumes "fix_node M n s = Inr s'"
      and "graph_inv s" and "valid s n" and "settled M s S"
  shows "graph_inv s' \<and> (\<forall>h. valid s h \<longrightarrow> valid s' h)
         \<and> settled M s' (S \<union> {n} \<times> {..<length (requirements M n)})"
  using fix_edges_inv [of M n "[0..<length (requirements M n)]" s s' S] assms
  by (simp add: fix_node_def Let_def lessThan_atLeast0)

lemma fix_nodes_inv:
  assumes "for_each (fix_node M) ns s = Inr s'"
      and "graph_inv s" and "\<forall>n \<in> set ns. valid s n" and "settled M s S"
  shows "settled M s' (S \<union> (\<Union>n \<in> set ns. {n} \<times> {..<length (requirements M n)}))"
  using assms
proof (induction ns arbitrary: s S)
  case Nil
  then show ?case by simp
next
  case (Cons n ns)
  from Cons.prems(1) obtain s1 where
    e: "fix_node M n s = Inr s1" and r: "for_each (fix_node M) ns s1 = Inr s'"
    by (auto split: sum.splits)
  have a: "graph_inv s1" "\<forall>h. valid s h \<longrightarrow> valid s1 h"
          "settled M s1 (S \<union> {n} \<times> {..<length (requirements M n)})"
    using fix_node_inv [OF e Cons.prems(2) _ Cons.prems(4)] Cons.prems(3) by simp_all
  have "settled M s' (S \<union> {n} \<times> {..<length (requirements M n)}
          \<union> (\<Union>n \<in> set ns. {n} \<times> {..<length (requirements M n)}))"
    using Cons.IH [OF r a(1) _ a(3)] a(2) Cons.prems(3) by simp
  moreover have "S \<union> {n} \<times> {..<length (requirements M n)}
          \<union> (\<Union>n \<in> set ns. {n} \<times> {..<length (requirements M n)})
       = S \<union> (\<Union>n \<in> set (n # ns). {n} \<times> {..<length (requirements M n)})"
    by auto
  ultimately show ?case by simp
qed

subsection \<open>The edges after the fixer has run\<close>

text \<open>
  C1, the claim refuted on two graphs on which \<^verbatim>\<open>fix_problems\<close> returns with an
  empty error report. On the first, an operator requires a real of a malformed
  operator whose infimum type is real: the fixer puts a conversion node between them
  (node 2), which is a real, and never visits the new node, whose own input is the
  malformed operator and meets no requirement. On the second, a sample requires the
  infimum type of its distribution, whose graph type is \<open>Malformed\<close>: the fixer
  returns the distribution as it is.
\<close>

theorem unvisited_edge_counterexample:
  "fix_problems wrapped_model (RequirementsFixer_init wrapped_graph)
     = Inr \<lparr>errors = [],
            bmg = \<lparr>arena =
              [\<lparr>node_class = bn_OperatorNode, inputs = [], cvalue = PyOther, ctype = None\<rparr>,
               \<lparr>node_class = bn_OperatorNode, inputs = [2], cvalue = PyOther, ctype = None\<rparr>,
               \<lparr>node_class = bn_ToRealNode, inputs = [0], cvalue = PyOther,
                ctype = None\<rparr>]\<rparr>\<rparr>
   \<and> requirements wrapped_model 2 = [UpperBound Real]
   \<and> \<not> edge_settled wrapped_model
        \<lparr>errors = [],
         bmg = \<lparr>arena =
              [\<lparr>node_class = bn_OperatorNode, inputs = [], cvalue = PyOther, ctype = None\<rparr>,
               \<lparr>node_class = bn_OperatorNode, inputs = [2], cvalue = PyOther, ctype = None\<rparr>,
               \<lparr>node_class = bn_ToRealNode, inputs = [0], cvalue = PyOther,
                ctype = None\<rparr>]\<rparr>\<rparr> 2 0
   \<and> fix_problems sample_model (RequirementsFixer_init sample_graph)
     = Inr (RequirementsFixer_init sample_graph)
   \<and> requirements sample_model 1 = [Exact Boolean]
   \<and> \<not> edge_settled sample_model (RequirementsFixer_init sample_graph) 1 0"
  by (simp add: fix_problems_def fix_node_def fix_edge_def set_input_def Let_def
      wrapped_model_def wrapped_graph_def sample_model_def sample_graph_def
      lattice_eval builder_eval edge_settled_def
      meet_requirement.simps u_meet_operator_requirement.simps u_convert_node.simps
      u_meet_distribution_requirement_def isinstance_OperatorNode_def upt_rec)

text \<open>
  C1, amended. When \<^verbatim>\<open>fix_problems\<close> returns, on a closed graph whose traversal
  lists nodes of the graph: for every node \<open>n\<close> of the traversal (the nodes that the
  fixer visits; the nodes that it creates are not among them) and every \<open>i\<close> below the
  number of its requirements, the graph type of the producer stored in \<open>inputs[i]\<close>
  meets \<open>requirements[i]\<close>, or the error report holds the violation that names that
  producer, that requirement, \<open>n\<close> and the label of the edge, or the producer is a
  distribution or a map node and \<open>requirements[i]\<close> is exactly its infimum type.
\<close>

theorem fix_problems_fixes_every_visited_edge:
  assumes "fix_problems M self = Inr self'"
      and "closed_arena (arena (bmg self))"
      and "\<forall>n \<in> set (traverse_from_roots M (arena (bmg self))). n < length (arena (bmg self))"
  shows "\<forall>n \<in> set (traverse_from_roots M (arena (bmg self))).
           \<forall>i < length (requirements M n). edge_fixed M self' n i"
proof -
  let ?ns = "traverse_from_roots M (arena (bmg self))"
  have "settled M self' ({} \<union> (\<Union>n \<in> set ?ns. {n} \<times> {..<length (requirements M n)}))"
    using fix_nodes_inv [of M ?ns self self' "{}"] assms
    by (simp add: fix_problems_def Let_def graph_inv_def valid_def settled_def)
  then show ?thesis
    by (auto simp: settled_def)
qed

theorem fix_problems_fixes_every_visited_edge_witness:
  "fix_problems example_model (RequirementsFixer_init example_graph)
     = Inr \<lparr>errors = [Violation 2 (Exact Probability) 1 ''right''],
            bmg = \<lparr>arena =
              [\<lparr>node_class = bn_ConstantNode, inputs = [], cvalue = PyInt 3, ctype = None\<rparr>,
               \<lparr>node_class = bn_OperatorNode, inputs = [3, 2], cvalue = PyOther,
                ctype = None\<rparr>,
               \<lparr>node_class = bn_OperatorNode, inputs = [], cvalue = PyOther, ctype = None\<rparr>,
               \<lparr>node_class = bn_ConstantNode, inputs = [], cvalue = PyInt 3,
                ctype = Some Real\<rparr>]\<rparr>\<rparr>
   \<and> edge_fixed example_model
        \<lparr>errors = [Violation 2 (Exact Probability) 1 ''right''],
         bmg = \<lparr>arena =
              [\<lparr>node_class = bn_ConstantNode, inputs = [], cvalue = PyInt 3, ctype = None\<rparr>,
               \<lparr>node_class = bn_OperatorNode, inputs = [3, 2], cvalue = PyOther,
                ctype = None\<rparr>,
               \<lparr>node_class = bn_OperatorNode, inputs = [], cvalue = PyOther, ctype = None\<rparr>,
               \<lparr>node_class = bn_ConstantNode, inputs = [], cvalue = PyInt 3,
                ctype = Some Real\<rparr>]\<rparr>\<rparr> 1 0
   \<and> edge_fixed example_model
        \<lparr>errors = [Violation 2 (Exact Probability) 1 ''right''],
         bmg = \<lparr>arena =
              [\<lparr>node_class = bn_ConstantNode, inputs = [], cvalue = PyInt 3, ctype = None\<rparr>,
               \<lparr>node_class = bn_OperatorNode, inputs = [3, 2], cvalue = PyOther,
                ctype = None\<rparr>,
               \<lparr>node_class = bn_OperatorNode, inputs = [], cvalue = PyOther, ctype = None\<rparr>,
               \<lparr>node_class = bn_ConstantNode, inputs = [], cvalue = PyInt 3,
                ctype = Some Real\<rparr>]\<rparr>\<rparr> 1 1
   \<and> fix_problems sample_model (RequirementsFixer_init sample_graph)
     = Inr (RequirementsFixer_init sample_graph)
   \<and> edge_fixed sample_model (RequirementsFixer_init sample_graph) 1 0"
proof -
  let ?s' = "\<lparr>errors = [Violation 2 (Exact Probability) 1 ''right''],
            bmg = \<lparr>arena =
              [\<lparr>node_class = bn_ConstantNode, inputs = [], cvalue = PyInt 3, ctype = None\<rparr>,
               \<lparr>node_class = bn_OperatorNode, inputs = [3, 2], cvalue = PyOther,
                ctype = None\<rparr>,
               \<lparr>node_class = bn_OperatorNode, inputs = [], cvalue = PyOther, ctype = None\<rparr>,
               \<lparr>node_class = bn_ConstantNode, inputs = [], cvalue = PyInt 3,
                ctype = Some Real\<rparr>]\<rparr>\<rparr>"
  have run: "fix_problems example_model (RequirementsFixer_init example_graph) = Inr ?s'"
    by (simp add: fix_problems_def fix_node_def fix_edge_def set_input_def Let_def
        example_model_def example_graph_def lattice_eval builder_eval
        meet_requirement.simps u_meet_operator_requirement.simps
        u_meet_constant_requirement_def isinstance_OperatorNode_def
        u_can_force_to_prob_def upt_rec)
  have run2: "fix_problems sample_model (RequirementsFixer_init sample_graph)
                = Inr (RequirementsFixer_init sample_graph)"
    by (simp add: fix_problems_def fix_node_def fix_edge_def set_input_def Let_def
        sample_model_def sample_graph_def lattice_eval builder_eval
        meet_requirement.simps u_meet_distribution_requirement_def upt_rec)
  have pre: "closed_arena (arena (bmg (RequirementsFixer_init example_graph)))"
            "closed_arena (arena (bmg (RequirementsFixer_init sample_graph)))"
    by (simp_all add: closed_arena_def example_graph_def sample_graph_def
        RequirementsFixer_init_def)
  have "\<forall>i < length (requirements example_model 1). edge_fixed example_model ?s' 1 i"
    using fix_problems_fixes_every_visited_edge
            [where M = example_model and self = "RequirementsFixer_init example_graph"
               and self' = ?s'] run pre
    by (simp add: example_model_def example_graph_def RequirementsFixer_init_def)
  then have a: "edge_fixed example_model ?s' 1 0 \<and> edge_fixed example_model ?s' 1 1"
    by (simp add: example_model_def)
  have "\<forall>i < length (requirements sample_model 1).
          edge_fixed sample_model (RequirementsFixer_init sample_graph) 1 i"
    using fix_problems_fixes_every_visited_edge
            [where M = sample_model and self = "RequirementsFixer_init sample_graph"
               and self' = "RequirementsFixer_init sample_graph"] run2 pre
    by (simp add: sample_model_def sample_graph_def RequirementsFixer_init_def)
  then have b: "edge_fixed sample_model (RequirementsFixer_init sample_graph) 1 0"
    by (simp add: sample_model_def)
  show ?thesis
    using run run2 a b by simp
qed

end
